theory Spec2Isabelle
  imports Complex_Main "HOL-Library.Multiset"
begin

section \<open>JavaScript values\<close>

text \<open>
  The catalogue service is written in JavaScript on top of Mongoose. Records, payloads and
  mapper results are untyped JavaScript values, so the mappers are modelled over a datatype
  of values. An object is an association list in insertion order (the order in which
  \<^verbatim>\<open>Object.entries\<close> enumerates string keys). Finite numbers are rationals, \<open>JNaN\<close> is
  the not-a-number value; infinities are not modelled. Strings are byte strings (UTF-8).
\<close>

datatype jsval =
    JUndefined
  | JNull
  | JBool bool
  | JNum rat
  | JNaN
  | JStr string
  | JObjectId string
  | JDate int
  | JObj "(string \<times> jsval) list"
  | JArr "jsval list"

datatype error =
    TypeError
  | RangeError
  | SyntaxError
  | CastError
  | ValidationError
  | ArgumentoInvalido
  | NoEncontrado
  | Duplicado
  | DivisionPorCero
  | ErrorConsulta
  | ErrorPlano string

text \<open>
  The failures. \<open>TypeError\<close>, \<open>RangeError\<close>, \<open>SyntaxError\<close>, \<open>CastError\<close> and
  \<open>ValidationError\<close> are raised by the runtime and by Mongoose, \<open>DivisionPorCero\<close> and
  \<open>ErrorConsulta\<close> by the store. \<open>ArgumentoInvalido\<close>, \<open>NoEncontrado\<close> and \<open>Duplicado\<close> are
  the failures that carry the status 400, 404 and 409 (\<^verbatim>\<open>crearError(mensaje, 404)\<close>,
  \<^verbatim>\<open>res.status(404)\<close>, the duplicate key of an insert). \<open>ErrorPlano m\<close> is
  \<^verbatim>\<open>new Error(m)\<close>: an error with the message \<open>m\<close> and no status, which the error handler
  answers with 500.
\<close>

text \<open>
  What the code takes from the JavaScript runtime and cannot be computed from the
  repository's code: the text of a non-string value (\<^verbatim>\<open>toString()\<close> of numbers, dates,
  plain objects and arrays, which fails when the object carries a non-callable
  \<^verbatim>\<open>toString\<close>), the number denoted by a string (\<^verbatim>\<open>Number(s)\<close>, \<open>None\<close> for NaN), the ISO text of
  \<^verbatim>\<open>new Date(v)\<close> (\<open>None\<close> when \<^verbatim>\<open>toISOString\<close> raises RangeError on an invalid date),
  the current year, Mongoose's cast of a value to an ObjectId (the hexadecimal text of the
  identifier, \<open>None\<close> for a CastError) and the regular expressions:
  \<open>regexI h p\<close> is \<^verbatim>\<open>new RegExp(p, "i")\<close>, \<open>None\<close> when the pattern is a SyntaxError, and
  otherwise the predicate \<^verbatim>\<open>test\<close> of the expression. \<open>mensajeDe h e\<close> is the message the
  runtime or the store gives the failure \<open>e\<close> it raises.
\<close>

record host =
  aTexto :: "jsval \<Rightarrow> error + string"
  numeroDeTexto :: "string \<Rightarrow> rat option"
  fechaISO :: "jsval \<Rightarrow> string option"
  anioActual :: int
  casteaObjectId :: "jsval \<Rightarrow> string option"
  regexI :: "string \<Rightarrow> (string \<Rightarrow> bool) option"
  mensajeDe :: "error \<Rightarrow> string"

fun truthy :: "jsval \<Rightarrow> bool" where
  "truthy JUndefined = False"
| "truthy JNull = False"
| "truthy (JBool b) = b"
| "truthy (JNum n) = (n \<noteq> 0)"
| "truthy JNaN = False"
| "truthy (JStr s) = (s \<noteq> [])"
| "truthy (JObjectId i) = True"
| "truthy (JDate d) = True"
| "truthy (JObj kvs) = True"
| "truthy (JArr xs) = True"

text \<open>\<^verbatim>\<open>a || b\<close>\<close>

definition jsOr :: "jsval \<Rightarrow> jsval \<Rightarrow> jsval" where
  "jsOr a b = (if truthy a then a else b)"

text \<open>\<^verbatim>\<open>typeof v === "object"\<close>\<close>

fun esTipoObjeto :: "jsval \<Rightarrow> bool" where
  "esTipoObjeto JNull = True"
| "esTipoObjeto (JObjectId i) = True"
| "esTipoObjeto (JDate d) = True"
| "esTipoObjeto (JObj kvs) = True"
| "esTipoObjeto (JArr xs) = True"
| "esTipoObjeto _ = False"

text \<open>
  Reading a property of a value that is neither \<^verbatim>\<open>undefined\<close> nor \<^verbatim>\<open>null\<close>. None of the
  names the mappers read is defined on the prototypes of numbers, strings, booleans, dates
  or arrays, so those reads give \<^verbatim>\<open>undefined\<close>. Mongoose gives an ObjectId the getter
  \<^verbatim>\<open>_id\<close>, which returns the ObjectId itself.
\<close>

fun leer :: "jsval \<Rightarrow> string \<Rightarrow> jsval" where
  "leer (JObj kvs) k = (case map_of kvs k of Some v \<Rightarrow> v | None \<Rightarrow> JUndefined)"
| "leer (JObjectId i) k = (if k = ''_id'' then JObjectId i else JUndefined)"
| "leer _ k = JUndefined"

text \<open>\<^verbatim>\<open>v.toString()\<close>: a TypeError on \<^verbatim>\<open>undefined\<close> and \<^verbatim>\<open>null\<close>.\<close>

fun metodoToString :: "host \<Rightarrow> jsval \<Rightarrow> error + string" where
  "metodoToString h JUndefined = Inl TypeError"
| "metodoToString h JNull = Inl TypeError"
| "metodoToString h (JStr s) = Inr s"
| "metodoToString h (JBool b) = Inr (if b then ''true'' else ''false'')"
| "metodoToString h (JObjectId i) = Inr i"
| "metodoToString h v = aTexto h v"

text \<open>\<^verbatim>\<open>Number(v)\<close>; objects and arrays go through their text.\<close>

definition numeroDe :: "host \<Rightarrow> string \<Rightarrow> jsval" where
  "numeroDe h s = (case numeroDeTexto h s of None \<Rightarrow> JNaN | Some n \<Rightarrow> JNum n)"

fun aNumero :: "host \<Rightarrow> jsval \<Rightarrow> jsval" where
  "aNumero h JUndefined = JNaN"
| "aNumero h JNull = JNum 0"
| "aNumero h (JBool b) = JNum (if b then 1 else 0)"
| "aNumero h (JNum n) = JNum n"
| "aNumero h JNaN = JNaN"
| "aNumero h (JStr s) = numeroDe h s"
| "aNumero h (JObjectId i) = numeroDe h i"
| "aNumero h (JDate d) = JNum (of_int d)"
| "aNumero h v = (case aTexto h v of Inl e \<Rightarrow> JNaN | Inr s \<Rightarrow> numeroDe h s)"

text \<open>\<^verbatim>\<open>v ? new Date(v).toISOString() : null\<close>\<close>

definition fechaONull :: "host \<Rightarrow> jsval \<Rightarrow> error + jsval" where
  "fechaONull h v =
     (if truthy v then (case fechaISO h v of None \<Rightarrow> Inl RangeError | Some s \<Rightarrow> Inr (JStr s))
      else Inr JNull)"

text \<open>
  The white space of JavaScript (WhiteSpace and LineTerminator) in UTF-8: the six ASCII
  blanks, U+00A0, U+1680, U+2000 to U+200A, U+2028, U+2029, U+202F, U+205F, U+3000 and U+FEFF.
\<close>

definition espacios :: "string list" where
  "espacios =
     [[CHR 0x09], [CHR 0x0A], [CHR 0x0B], [CHR 0x0C], [CHR 0x0D], [CHR 0x20],
      [CHR 0xC2, CHR 0xA0], [CHR 0xE1, CHR 0x9A, CHR 0x80], [CHR 0xE2, CHR 0x80, CHR 0x80],
      [CHR 0xE2, CHR 0x80, CHR 0x81], [CHR 0xE2, CHR 0x80, CHR 0x82],
      [CHR 0xE2, CHR 0x80, CHR 0x83], [CHR 0xE2, CHR 0x80, CHR 0x84],
      [CHR 0xE2, CHR 0x80, CHR 0x85], [CHR 0xE2, CHR 0x80, CHR 0x86],
      [CHR 0xE2, CHR 0x80, CHR 0x87], [CHR 0xE2, CHR 0x80, CHR 0x88],
      [CHR 0xE2, CHR 0x80, CHR 0x89], [CHR 0xE2, CHR 0x80, CHR 0x8A],
      [CHR 0xE2, CHR 0x80, CHR 0xA8], [CHR 0xE2, CHR 0x80, CHR 0xA9],
      [CHR 0xE2, CHR 0x80, CHR 0xAF], [CHR 0xE2, CHR 0x81, CHR 0x9F],
      [CHR 0xE3, CHR 0x80, CHR 0x80], [CHR 0xEF, CHR 0xBB, CHR 0xBF]]"

text \<open>
  The number of bytes of the white space a text starts with, and of the one it ends with; 0
  when there is none.
\<close>

definition blancoInicial :: "string \<Rightarrow> nat" where
  "blancoInicial s =
     (case find (\<lambda>b. take (length b) s = b) espacios of None \<Rightarrow> 0 | Some b \<Rightarrow> length b)"

definition blancoFinal :: "string \<Rightarrow> nat" where
  "blancoFinal s =
     (case find (\<lambda>b. length b \<le> length s \<and> drop (length s - length b) s = b) espacios of
        None \<Rightarrow> 0
      | Some b \<Rightarrow> length b)"

fun quitarInicio :: "nat \<Rightarrow> string \<Rightarrow> string" where
  "quitarInicio 0 s = s"
| "quitarInicio (Suc n) s =
     (if blancoInicial s = 0 then s else quitarInicio n (drop (blancoInicial s) s))"

fun quitarFinal :: "nat \<Rightarrow> string \<Rightarrow> string" where
  "quitarFinal 0 s = s"
| "quitarFinal (Suc n) s =
     (if blancoFinal s = 0 then s else quitarFinal n (take (length s - blancoFinal s) s))"

text \<open>
  \<^verbatim>\<open>s.trimStart()\<close> and \<^verbatim>\<open>s.trim()\<close>: white space is removed as long as there is some,
  which takes at most as many steps as the text has bytes.
\<close>

definition trimStart :: "string \<Rightarrow> string" where
  "trimStart s = quitarInicio (length s) s"

definition trim :: "string \<Rightarrow> string" where
  "trim s = quitarFinal (length (trimStart s)) (trimStart s)"

text \<open>
  \<^verbatim>\<open>s.length\<close>: the UTF-16 code units of a text held in UTF-8, one for each character of
  up to three bytes and two for each character of four bytes (continuation bytes are 0x80 to
  0xBF, the first byte of a four-byte character is 0xF0 or above).
\<close>

definition longitud :: "string \<Rightarrow> nat" where
  "longitud s = length (filter (\<lambda>c. (of_char c :: nat) div 64 \<noteq> 2) s)
              + length (filter (\<lambda>c. 240 \<le> (of_char c :: nat)) s)"

text \<open>\<^verbatim>\<open>obj[k] = v\<close>: an existing key keeps its place, a new key goes last.\<close>

fun asignar :: "string \<Rightarrow> jsval \<Rightarrow> (string \<times> jsval) list \<Rightarrow> (string \<times> jsval) list" where
  "asignar k v [] = [(k, v)]"
| "asignar k v ((k', v') # kvs) = (if k = k' then (k, v) # kvs else (k', v') # asignar k v kvs)"

text \<open>Sequencing of computations that may raise.\<close>

definition ligar :: "error + 'a \<Rightarrow> ('a \<Rightarrow> error + 'b) \<Rightarrow> error + 'b" where
  "ligar m f = (case m of Inl e \<Rightarrow> Inl e | Inr x \<Rightarrow> f x)"

text \<open>
  \<^verbatim>\<open>error.message\<close>: a plain error carries the message it was built with, any other
  failure the message of the runtime.
\<close>

definition mensaje :: "host \<Rightarrow> error \<Rightarrow> string" where
  "mensaje h e = (case e of ErrorPlano m \<Rightarrow> m | _ \<Rightarrow> mensajeDe h e)"

text \<open>
  \<^verbatim>\<open>try { ... } catch (error) { throw new Error(`prefijo${error.message}`) }\<close>, the frame
  of every method of the services: whatever fails inside leaves the method as a plain error
  that keeps the message only, behind a prefix.
\<close>

definition relanzar :: "host \<Rightarrow> string \<Rightarrow> error + 'a \<Rightarrow> error + 'a" where
  "relanzar h prefijo m =
     (case m of Inl e \<Rightarrow> Inl (ErrorPlano (prefijo @ mensaje h e)) | Inr v \<Rightarrow> Inr v)"

text \<open>\<^verbatim>\<open>xs.map(f)\<close> where \<open>f\<close> may raise: the first exception aborts the whole map.\<close>

fun mapear :: "('a \<Rightarrow> error + 'b) \<Rightarrow> 'a list \<Rightarrow> error + 'b list" where
  "mapear f [] = Inr []"
| "mapear f (x # xs) = ligar (f x) (\<lambda>y. ligar (mapear f xs) (\<lambda>ys. Inr (y # ys)))"

text \<open>Field names and messages with non-ASCII letters, as UTF-8 bytes.\<close>

definition c_anio :: string where
  "c_anio = ''a'' @ [CHR 0xC3, CHR 0xB1] @ ''o''"

definition c_anioLanzamiento :: string where
  "c_anioLanzamiento = ''a'' @ [CHR 0xC3, CHR 0xB1] @ ''oLanzamiento''"

definition Anonimo :: string where
  "Anonimo = ''An'' @ [CHR 0xC3, CHR 0xB3] @ ''nimo''"

definition c_resenia :: string where
  "c_resenia = ''rese'' @ [CHR 0xC3, CHR 0xB1] @ ''a''"

section \<open>Field mapper, legacy shape (utils/transformer.js)\<close>







text \<open>
  \<^verbatim>\<open>transformarAFrontend\<close>: \<^verbatim>\<open>null\<close> for a falsy record; otherwise the first field calls
  \<^verbatim>\<open>juegoBackend._id.toString()\<close> and the last converts the creation date, and either
  may raise.
\<close>

definition transformarAFrontend :: "host \<Rightarrow> jsval \<Rightarrow> error + jsval" where
  "transformarAFrontend h b =
     (if \<not> truthy b then Inr JNull
      else ligar (metodoToString h (leer b ''_id'')) (\<lambda>ident.
           ligar (fechaONull h (leer b ''fechaCreacion'')) (\<lambda>creada.
           Inr (JObj
             [(''id'', JStr ident),
              (''nombre'', leer b ''titulo''),
              (c_anio, leer b c_anioLanzamiento),
              (''imagen'', jsOr (leer b ''imagenPortada'') (JStr '''')),
              (''resena'', jsOr (leer b ''descripcion'') (JStr '''')),
              (''genero'', leer b ''genero''),
              (''plataforma'', leer b ''plataforma''),
              (''tienda'', jsOr (leer b ''tienda'') (JStr '''')),
              (''desarrollador'', jsOr (leer b ''desarrollador'') (JStr '''')),
              (''completado'', JBool (truthy (leer b ''completado''))),
              (''horasJugadas'', jsOr (leer b ''horasJugadas'') (JNum 0)),
              (''fechaCreacion'', creada)]))))"

text \<open>\<^verbatim>\<open>transformarArrayAFrontend\<close>: \<^verbatim>\<open>map\<close> then \<^verbatim>\<open>filter(Boolean)\<close>.\<close>

definition transformarArrayAFrontend :: "host \<Rightarrow> jsval \<Rightarrow> error + jsval list" where
  "transformarArrayAFrontend h juegosBackend =
     (case juegosBackend of
        JArr xs \<Rightarrow> ligar (mapear (transformarAFrontend h) xs) (\<lambda>ys. Inr (filter truthy ys))
      | _ \<Rightarrow> Inr [])"

definition transformarReseniaAFrontend :: "host \<Rightarrow> jsval \<Rightarrow> error + jsval" where
  "transformarReseniaAFrontend h b =
     (if \<not> truthy b then Inr JNull
      else ligar (metodoToString h (leer b ''_id'')) (\<lambda>ident.
           ligar (if esTipoObjeto (leer b ''juegoId'') \<and> leer b ''juegoId'' \<noteq> JNull
                  then ligar (metodoToString h (leer b ''juegoId'')) (\<lambda>s. Inr (JStr s))
                  else Inr (jsOr (leer b ''juegoId'') (JStr ''''))) (\<lambda>juego.
           ligar (fechaONull h (leer b ''fechaCreacion'')) (\<lambda>creada.
           ligar (fechaONull h (leer b ''fechaActualizacion'')) (\<lambda>actualizada.
           Inr (JObj
             [(''id'', JStr ident),
              (''juegoId'', juego),
              (''puntuacion'',
                 if leer b ''puntuacion'' \<noteq> JUndefined \<and> leer b ''puntuacion'' \<noteq> JNull
                 then aNumero h (leer b ''puntuacion'') else JNull),
              (''texto'', jsOr (leer b ''textoResena'') (JStr '''')),
              (''horasJugadas'',
                 if leer b ''horasJugadas'' \<noteq> JUndefined \<and> leer b ''horasJugadas'' \<noteq> JNull
                 then aNumero h (leer b ''horasJugadas'') else JNull),
              (''dificultad'', jsOr (leer b ''dificultad'') (JStr '''')),
              (''recomendaria'', JBool (truthy (leer b ''recomendaria''))),
              (''fechaCreacion'', creada),
              (''fechaActualizacion'', actualizada)]))))))"

section \<open>Field mapper, canonical shape (src/utils/transformer.js)\<close>

text \<open>
  The newer mapper wraps the construction in \<^verbatim>\<open>try { ... } catch { return null }\<close>, reads
  both the canonical and the legacy field names, and guards the \<^verbatim>\<open>_id\<close> read.
\<close>

definition atrapar :: "error + jsval \<Rightarrow> jsval" where
  "atrapar m = (case m of Inl e \<Rightarrow> JNull | Inr v \<Rightarrow> v)"

definition identificador :: "host \<Rightarrow> jsval \<Rightarrow> error + jsval" where
  "identificador h b =
     (if truthy (leer b ''_id'') then ligar (metodoToString h (leer b ''_id'')) (\<lambda>s. Inr (JStr s))
      else Inr (JStr ''''))"

definition transformarAFrontend_srv :: "host \<Rightarrow> jsval \<Rightarrow> jsval" where
  "transformarAFrontend_srv h b =
     (if \<not> truthy b then JNull
      else atrapar (
           ligar (identificador h b) (\<lambda>ident.
           ligar (fechaONull h (leer b ''fechaCreacion'')) (\<lambda>creada.
           ligar (fechaONull h (leer b ''fechaActualizacion'')) (\<lambda>actualizada.
           Inr (JObj
             [(''id'', ident),
              (''nombre'', jsOr (jsOr (leer b ''nombre'') (leer b ''titulo'')) (JStr '''')),
              (c_anio, jsOr (jsOr (leer b c_anio) (leer b c_anioLanzamiento)) (JNum (of_int (anioActual h)))),
              (''imagen'', jsOr (jsOr (leer b ''imagen'') (leer b ''imagenPortada'')) (JStr '''')),
              (''resena'', jsOr (jsOr (leer b ''resena'') (leer b ''descripcion'')) (JStr '''')),
              (''genero'', jsOr (leer b ''genero'') (JStr '''')),
              (''plataforma'', jsOr (leer b ''plataforma'') (JStr '''')),
              (''tienda'', jsOr (leer b ''tienda'') (JStr '''')),
              (''desarrollador'', jsOr (leer b ''desarrollador'') (JStr '''')),
              (''completado'', JBool (truthy (leer b ''completado''))),
              (''horasJugadas'', jsOr (aNumero h (leer b ''horasJugadas'')) (JNum 0)),
              (''fechaCreacion'', creada),
              (''fechaActualizacion'', actualizada)]))))))"

text \<open>The array variant keeps every result that is not \<^verbatim>\<open>null\<close>.\<close>

definition transformarArrayAFrontend_srv :: "host \<Rightarrow> jsval \<Rightarrow> jsval list" where
  "transformarArrayAFrontend_srv h juegosBackend =
     (case juegosBackend of
        JArr xs \<Rightarrow> filter (\<lambda>juego. juego \<noteq> JNull) (map (transformarAFrontend_srv h) xs)
      | _ \<Rightarrow> [])"

text \<open>
  The review mapper fills \<^verbatim>\<open>juegoId\<close> after building the object: from the populated
  game (an object with a truthy \<^verbatim>\<open>_id\<close>), adding the game's name and category, or from
  the plain reference.
\<close>

definition referenciaJuego :: "host \<Rightarrow> jsval \<Rightarrow> (string \<times> jsval) list \<Rightarrow> error + (string \<times> jsval) list" where
  "referenciaJuego h j resultado =
     (if truthy j then
        (if esTipoObjeto j \<and> truthy (leer j ''_id'') then
           ligar (metodoToString h (leer j ''_id'')) (\<lambda>s.
           Inr (asignar ''juegoGenero'' (leer j ''genero'')
                 (asignar ''juegoNombre'' (jsOr (leer j ''nombre'') (leer j ''titulo''))
                   (asignar ''juegoId'' (JStr s) resultado))))
         else ligar (metodoToString h j) (\<lambda>s. Inr (asignar ''juegoId'' (JStr s) resultado)))
      else Inr resultado)"

definition transformarReseniaAFrontend_srv :: "host \<Rightarrow> jsval \<Rightarrow> jsval" where
  "transformarReseniaAFrontend_srv h b =
     (if \<not> truthy b then JNull
      else atrapar (
           ligar (identificador h b) (\<lambda>ident.
           ligar (fechaONull h (leer b ''fechaCreacion'')) (\<lambda>creada.
           ligar (fechaONull h (leer b ''fechaActualizacion'')) (\<lambda>actualizada.
           ligar (referenciaJuego h (leer b ''juegoId'')
             [(''id'', ident),
              (''juegoId'', JStr ''''),
              (''contenido'', jsOr (jsOr (leer b ''contenido'') (leer b ''textoResena'')) (JStr '''')),
              (''calificacion'',
                 jsOr (aNumero h (jsOr (leer b ''calificacion'') (leer b ''puntuacion''))) (JNum 1)),
              (''autor'', jsOr (leer b ''autor'') (JStr Anonimo)),
              (''dificultad'', jsOr (leer b ''dificultad'') (JStr ''Normal'')),
              (''recomendaria'', JBool (truthy (leer b ''recomendaria''))),
              (''horasJugadas'', jsOr (aNumero h (leer b ''horasJugadas'')) (JNum 0)),
              (''fechaCreacion'', creada),
              (''fechaActualizacion'', actualizada)]) (\<lambda>resultado.
           Inr (JObj resultado)))))))"

text \<open>The storage schema's default for \<^verbatim>\<open>recomendaria\<close> (models/resenia.js).\<close>

definition recomendaria_default :: bool where
  "recomendaria_default = True"


section \<open>Regular expressions, identifiers and dates of a reference host\<close>

text \<open>
  Regular expressions of the fragment built from literal characters, \<^verbatim>\<open>.\<close>, groups,
  \<^verbatim>\<open>|\<close>, the anchors \<^verbatim>\<open>^\<close> and \<^verbatim>\<open>$\<close> and the postfix operators \<^verbatim>\<open>*\<close>, \<^verbatim>\<open>+\<close>
  and \<^verbatim>\<open>?\<close>, matched without regard to ASCII letter case. \<open>finales r s i\<close> lists the
  positions at which a match of \<open>r\<close> that starts at position \<open>i\<close> of \<open>s\<close> can end;
  \<open>busca\<close> is the unanchored search of \<^verbatim>\<open>test\<close>.
\<close>

datatype rx = Eps | Lit char | Punto | Inicio | Fin | Cat rx rx | Alt rx rx | Rep rx

definition minuscula :: "char \<Rightarrow> char" where
  "minuscula c = (let n = (of_char c :: nat) in if 65 \<le> n \<and> n \<le> 90 then char_of (n + 32) else c)"

definition finDeLinea :: "char \<Rightarrow> bool" where
  "finDeLinea c = (c = CHR 0x0A \<or> c = CHR 0x0D)"

fun clausura :: "(nat \<Rightarrow> nat list) \<Rightarrow> nat \<Rightarrow> nat list \<Rightarrow> nat list" where
  "clausura f 0 ps = ps"
| "clausura f (Suc k) ps = clausura f k (remdups (ps @ concat (map f ps)))"

fun finales :: "rx \<Rightarrow> string \<Rightarrow> nat \<Rightarrow> nat list" where
  "finales Eps s i = [i]"
| "finales (Lit c) s i = (if i < length s \<and> minuscula (s ! i) = minuscula c then [Suc i] else [])"
| "finales Punto s i = (if i < length s \<and> \<not> finDeLinea (s ! i) then [Suc i] else [])"
| "finales Inicio s i = (if i = 0 then [i] else [])"
| "finales Fin s i = (if i = length s then [i] else [])"
| "finales (Cat a b) s i = remdups (concat (map (finales b s) (finales a s i)))"
| "finales (Alt a b) s i = remdups (finales a s i @ finales b s i)"
| "finales (Rep a) s i = clausura (finales a s) (Suc (length s)) [i]"

definition busca :: "rx \<Rightarrow> string \<Rightarrow> bool" where
  "busca r s = list_ex (\<lambda>i. finales r s i \<noteq> []) [0..<Suc (length s)]"

text \<open>
  The pattern is read in one pass over a stack of open groups; a frame holds the finished
  alternatives, the atoms of the current alternative and whether the last atom already
  carries a quantifier. A quantifier with nothing to repeat is a SyntaxError; character
  classes, braces and escapes are outside the fragment and rejected.
\<close>

type_synonym marco = "rx list \<times> rx list \<times> bool"

definition secuencia :: "rx list \<Rightarrow> rx" where
  "secuencia atomos = foldr Cat atomos Eps"

fun alternativas :: "rx list \<Rightarrow> rx" where
  "alternativas [] = Eps"
| "alternativas [a] = a"
| "alternativas (a # as) = Alt a (alternativas as)"

definition cerrar :: "marco \<Rightarrow> rx" where
  "cerrar m = (case m of (alts, atomos, q) \<Rightarrow> alternativas (alts @ [secuencia atomos]))"

definition cuantificar :: "(rx \<Rightarrow> rx) \<Rightarrow> marco list \<Rightarrow> marco list option" where
  "cuantificar g pila =
     (case pila of
        (alts, atomos, q) # resto \<Rightarrow>
          (if atomos = [] \<or> q \<or> last atomos = Inicio \<or> last atomos = Fin then None
           else Some ((alts, butlast atomos @ [g (last atomos)], True) # resto))
      | [] \<Rightarrow> None)"

definition atomo :: "rx \<Rightarrow> marco list \<Rightarrow> marco list option" where
  "atomo a pila =
     (case pila of
        (alts, atomos, q) # resto \<Rightarrow> Some ((alts, atomos @ [a], False) # resto)
      | [] \<Rightarrow> None)"

definition paso :: "marco list option \<Rightarrow> char \<Rightarrow> marco list option" where
  "paso estado c =
     (case estado of
        None \<Rightarrow> None
      | Some pila \<Rightarrow>
          if c = CHR ''('' then Some (([], [], False) # pila)
          else if c = CHR '')'' then
            (case pila of m # m' # resto \<Rightarrow> atomo (cerrar m) (m' # resto) | _ \<Rightarrow> None)
          else if c = CHR ''|'' then
            (case pila of (alts, atomos, q) # resto \<Rightarrow> Some ((alts @ [secuencia atomos], [], False) # resto)
                        | [] \<Rightarrow> None)
          else if c = CHR ''*'' then cuantificar Rep pila
          else if c = CHR ''+'' then cuantificar (\<lambda>a. Cat a (Rep a)) pila
          else if c = CHR ''?'' then
            (case pila of
               (alts, atomos, True) # resto \<Rightarrow> Some ((alts, atomos, False) # resto)
             | _ \<Rightarrow> cuantificar (\<lambda>a. Alt a Eps) pila)
          else if c = CHR ''.'' then atomo Punto pila
          else if c = CHR ''^'' then atomo Inicio pila
          else if c = CHR ''$'' then atomo Fin pila
          else if c \<in> set ''[]{}'' \<or> c = CHR 0x5C then None
          else atomo (Lit c) pila)"

definition analizar :: "string \<Rightarrow> rx option" where
  "analizar patron =
     (case foldl paso (Some [([], [], False)]) patron of
        Some [m] \<Rightarrow> Some (cerrar m)
      | _ \<Rightarrow> None)"

definition regexBasico :: "string \<Rightarrow> (string \<Rightarrow> bool) option" where
  "regexBasico patron = map_option busca (analizar patron)"

text \<open>\<^verbatim>\<open>validarObjectId\<close> (utils/validation.js): \<^verbatim>\<open>/^[0-9a-fA-F]{24}$/.test(id)\<close> on a string.\<close>

definition esHex :: "char \<Rightarrow> bool" where
  "esHex c = (let n = (of_char c :: nat) in
                (48 \<le> n \<and> n \<le> 57) \<or> (65 \<le> n \<and> n \<le> 70) \<or> (97 \<le> n \<and> n \<le> 102))"

definition validarObjectIdTexto :: "string \<Rightarrow> bool" where
  "validarObjectIdTexto s = (length s = 24 \<and> list_all esHex s)"

text \<open>
  \<^verbatim>\<open>toISOString()\<close> of a time value in milliseconds since the epoch: the civil date of
  the day number in the proleptic Gregorian calendar, four digits for the years 0 to 9999 and
  a sign with six digits otherwise; a time value beyond 8.64e15 in magnitude is an invalid
  date.
\<close>

fun decimal :: "nat \<Rightarrow> nat \<Rightarrow> string" where
  "decimal 0 n = []"
| "decimal (Suc w) n = decimal w (n div 10) @ [char_of (48 + n mod 10)]"

definition fechaCivil :: "int \<Rightarrow> int \<times> int \<times> int" where
  "fechaCivil dias =
     (let z = dias + 719468;
          era = z div 146097;
          doe = z mod 146097;
          yoe = (doe - doe div 1460 + doe div 36524 - doe div 146096) div 365;
          doy = doe - (365 * yoe + yoe div 4 - yoe div 100);
          mp = (5 * doy + 2) div 153;
          d = doy - (153 * mp + 2) div 5 + 1;
          m = (if mp < 10 then mp + 3 else mp - 9);
          y = yoe + era * 400 + (if m \<le> 2 then 1 else 0)
      in (y, m, d))"

definition textoISO :: "int \<Rightarrow> string option" where
  "textoISO ms =
     (if \<bar>ms\<bar> > 8640000000000000 then None
      else (case fechaCivil (ms div 86400000) of (y, m, d) \<Rightarrow>
        let resto = nat (ms mod 86400000);
            anioTexto = (if 0 \<le> y \<and> y \<le> 9999 then decimal 4 (nat y)
                         else (if y < 0 then ''-'' else ''+'') @ decimal 6 (nat \<bar>y\<bar>))
        in Some (anioTexto @ ''-'' @ decimal 2 (nat m) @ ''-'' @ decimal 2 (nat d) @ ''T''
                 @ decimal 2 (resto div 3600000) @ '':'' @ decimal 2 (resto div 60000 mod 60) @ '':''
                 @ decimal 2 (resto div 1000 mod 60) @ ''.'' @ decimal 3 (resto mod 1000) @ ''Z'')))"

section \<open>The document store\<close>

text \<open>
  A game document as the Mongoose schema of models/juego.js shapes it, a review document
  with its identifier, its reference to a game and its remaining stored fields, and the store
  with its two collections in insertion order.
\<close>

record juego =
  j_id :: string
  nombre :: string
  anio :: int
  genero :: string
  plataforma :: string
  imagen :: string
  resena :: string
  desarrollador :: string
  tienda :: string
  completado :: bool
  horasJugadas :: rat
  fechaCreacion :: int
  fechaActualizacion :: int

record resenia =
  r_id :: string
  r_juegoId :: string
  r_campos :: "(string \<times> jsval) list"

record almacen =
  juegos :: "juego list"
  resenias :: "resenia list"

text \<open>The game document a query hands to the mappers.\<close>

definition documento :: "juego \<Rightarrow> jsval" where
  "documento j = JObj
     [(''_id'', JObjectId (j_id j)),
      (''nombre'', JStr (nombre j)),
      (c_anio, JNum (of_int (anio j))),
      (''genero'', JStr (genero j)),
      (''plataforma'', JStr (plataforma j)),
      (''imagen'', JStr (imagen j)),
      (''resena'', JStr (resena j)),
      (''desarrollador'', JStr (desarrollador j)),
      (''tienda'', JStr (tienda j)),
      (''completado'', JBool (completado j)),
      (''horasJugadas'', JNum (horasJugadas j)),
      (''fechaCreacion'', JDate (fechaCreacion j)),
      (''fechaActualizacion'', JDate (fechaActualizacion j))]"

text \<open>\<^verbatim>\<open>Model.findById(id)\<close>: a CastError when the identifier does not cast.\<close>

definition findByIdJuego :: "host \<Rightarrow> almacen \<Rightarrow> jsval \<Rightarrow> error + juego option" where
  "findByIdJuego h s v =
     (case casteaObjectId h v of
        None \<Rightarrow> Inl CastError
      | Some i \<Rightarrow> Inr (find (\<lambda>j. j_id j = i) (juegos s)))"

definition findByIdResenia :: "host \<Rightarrow> almacen \<Rightarrow> jsval \<Rightarrow> error + resenia option" where
  "findByIdResenia h s v =
     (case casteaObjectId h v of
        None \<Rightarrow> Inl CastError
      | Some i \<Rightarrow> Inr (find (\<lambda>r. r_id r = i) (resenias s)))"

text \<open>Removal of the first document that satisfies a predicate.\<close>

fun quitarPrimero :: "('a \<Rightarrow> bool) \<Rightarrow> 'a list \<Rightarrow> 'a list" where
  "quitarPrimero p [] = []"
| "quitarPrimero p (x # xs) = (if p x then xs else x # quitarPrimero p xs)"

section \<open>Sorting, skipping and limiting a query\<close>

text \<open>
  The values a sort compares, in the store's order of types: null, numbers, strings,
  booleans, dates; strings by their bytes.
\<close>

datatype bson = BNull | BNum rat | BStr string | BBool bool | BDate int

fun cadenaMenorIgual :: "string \<Rightarrow> string \<Rightarrow> bool" where
  "cadenaMenorIgual [] ys = True"
| "cadenaMenorIgual (x # xs) [] = False"
| "cadenaMenorIgual (x # xs) (y # ys) =
     ((of_char x :: nat) < of_char y \<or> (x = y \<and> cadenaMenorIgual xs ys))"

fun rango :: "bson \<Rightarrow> nat" where
  "rango BNull = 0"
| "rango (BNum n) = 1"
| "rango (BStr s) = 2"
| "rango (BBool b) = 3"
| "rango (BDate d) = 4"

fun bsonMenorIgual :: "bson \<Rightarrow> bson \<Rightarrow> bool" where
  "bsonMenorIgual (BNum a) (BNum b) = (a \<le> b)"
| "bsonMenorIgual (BStr a) (BStr b) = cadenaMenorIgual a b"
| "bsonMenorIgual (BBool a) (BBool b) = (a \<le> b)"
| "bsonMenorIgual (BDate a) (BDate b) = (a \<le> b)"
| "bsonMenorIgual a b = (rango a \<le> rango b)"

text \<open>The value of a named field of a game document; a name the document lacks gives null.\<close>

definition campoJuego :: "string \<Rightarrow> juego \<Rightarrow> bson" where
  "campoJuego c j =
     (if c = ''_id'' then BStr (j_id j)
      else if c = ''nombre'' then BStr (nombre j)
      else if c = c_anio then BNum (of_int (anio j))
      else if c = ''genero'' then BStr (genero j)
      else if c = ''plataforma'' then BStr (plataforma j)
      else if c = ''imagen'' then BStr (imagen j)
      else if c = ''resena'' then BStr (resena j)
      else if c = ''desarrollador'' then BStr (desarrollador j)
      else if c = ''tienda'' then BStr (tienda j)
      else if c = ''completado'' then BBool (completado j)
      else if c = ''horasJugadas'' then BNum (horasJugadas j)
      else if c = ''fechaCreacion'' then BDate (fechaCreacion j)
      else if c = ''fechaActualizacion'' then BDate (fechaActualizacion j)
      else BNull)"

text \<open>A stable insertion sort: documents with equal keys keep their order.\<close>

fun insertar :: "('a \<Rightarrow> 'a \<Rightarrow> bool) \<Rightarrow> 'a \<Rightarrow> 'a list \<Rightarrow> 'a list" where
  "insertar le x [] = [x]"
| "insertar le x (y # ys) = (if le x y then x # y # ys else y # insertar le x ys)"

definition ordenar :: "('a \<Rightarrow> 'a \<Rightarrow> bool) \<Rightarrow> 'a list \<Rightarrow> 'a list" where
  "ordenar le xs = foldr (insertar le) xs []"

text \<open>\<^verbatim>\<open>.sort({ [campo]: direccion })\<close> with direction 1 or -1.\<close>

definition sortPor :: "string \<Rightarrow> bool \<Rightarrow> juego list \<Rightarrow> juego list" where
  "sortPor campo ascendente js =
     ordenar (\<lambda>a b. if ascendente then bsonMenorIgual (campoJuego campo a) (campoJuego campo b)
                     else bsonMenorIgual (campoJuego campo b) (campoJuego campo a)) js"

text \<open>
  \<^verbatim>\<open>.limit(n)\<close>: zero means no limit, and a negative limit counts as its absolute value.
\<close>

definition limitar :: "int \<Rightarrow> 'a list \<Rightarrow> 'a list" where
  "limitar n xs = (if n = 0 then xs else take (nat \<bar>n\<bar>) xs)"

section \<open>Aggregation engine (src/services/estadisticasService.js)\<close>





record estadisticasJuegos =
  totalJuegos :: nat
  juegsCompletados :: nat
  juegosPendientes :: int
  horasTotales :: rat
  promedioHoras :: rat
  anioMasAntiguo :: "int option"
  anioMasReciente :: "int option"
  porcentajeCompletado :: rat
  porcentajeConImagen :: "rat option"




text \<open>
  \<^verbatim>\<open>obtenerJuegosMasJugados\<close>: the games with more than zero hours, the selected fields
  only, by hours descending, limited.
\<close>

record juegoJugado =
  m_id :: string
  m_nombre :: string
  m_genero :: string
  m_plataforma :: string
  m_horasJugadas :: rat
  m_completado :: bool
  m_imagen :: string

definition seleccionar :: "juego \<Rightarrow> juegoJugado" where
  "seleccionar j = \<lparr> m_id = j_id j, m_nombre = nombre j, m_genero = genero j,
                     m_plataforma = plataforma j, m_horasJugadas = horasJugadas j,
                     m_completado = completado j, m_imagen = imagen j \<rparr>"

definition obtenerJuegosMasJugados :: "int \<Rightarrow> almacen \<Rightarrow> juegoJugado list" where
  "obtenerJuegosMasJugados limite s =
     map seleccionar
       (limitar limite (sortPor ''horasJugadas'' False (filter (\<lambda>j. 0 < horasJugadas j) (juegos s))))"

section \<open>Deleting a game (src/services/juegoService.js, src/controllers/juegoController.js)\<close>

text \<open>
  \<^verbatim>\<open>Juego.findByIdAndDelete(id)\<close> removes the game with that identifier from the games
  collection and returns it; nothing else is written. The service returns the identifier and
  the name of the removed game, the controller answers with the same two. When no game has
  the identifier, the service throws a plain error inside its frame and the controller hands
  \<^verbatim>\<open>crearError("Juego no encontrado", 404)\<close> to the error handler.
\<close>

definition findByIdAndDeleteJuego :: "host \<Rightarrow> jsval \<Rightarrow> almacen \<Rightarrow> (error + juego option) \<times> almacen" where
  "findByIdAndDeleteJuego h v s =
     (case findByIdJuego h s v of
        Inl e \<Rightarrow> (Inl e, s)
      | Inr None \<Rightarrow> (Inr None, s)
      | Inr (Some j) \<Rightarrow> (Inr (Some j), s\<lparr>juegos := quitarPrimero (\<lambda>x. j_id x = j_id j) (juegos s)\<rparr>))"

definition eliminar :: "host \<Rightarrow> jsval \<Rightarrow> almacen \<Rightarrow> (error + string \<times> string) \<times> almacen" where
  "eliminar h v s =
     apfst (relanzar h ''Error eliminando juego: '')
       (case findByIdAndDeleteJuego h v s of
          (Inl e, s') \<Rightarrow> (Inl e, s')
        | (Inr None, s') \<Rightarrow> (Inl (ErrorPlano ''Juego no encontrado''), s')
        | (Inr (Some j), s') \<Rightarrow> (Inr (j_id j, nombre j), s'))"

definition eliminarJuego :: "host \<Rightarrow> jsval \<Rightarrow> almacen \<Rightarrow> (error + string \<times> string) \<times> almacen" where
  "eliminarJuego h v s =
     (case findByIdAndDeleteJuego h v s of
        (Inl e, s') \<Rightarrow> (Inl e, s')
      | (Inr None, s') \<Rightarrow> (Inl NoEncontrado, s')
      | (Inr (Some j), s') \<Rightarrow> (Inr (j_id j, nombre j), s'))"

section \<open>Creating a game (src/services/juegoService.js, src/controllers/juegoController.js)\<close>

text \<open>
  The payload of a create request as the validation middleware hands it on: the known fields
  only, each absent or of its type.
\<close>

record datosJuego =
  d_nombre :: "string option"
  d_anio :: "int option"
  d_genero :: "string option"
  d_plataforma :: "string option"
  d_imagen :: "string option"
  d_resena :: "string option"
  d_desarrollador :: "string option"
  d_tienda :: "string option"
  d_completado :: "bool option"
  d_horasJugadas :: "rat option"

text \<open>The categories the schema admits.\<close>

definition generosValidos :: "string list" where
  "generosValidos =
     [''Acci'' @ [CHR 0xC3, CHR 0xB3] @ ''n'', ''RPG'', ''Estrategia'', ''Deportes'', ''Carreras'',
      ''Aventura'', ''Terror'', ''Simulaci'' @ [CHR 0xC3, CHR 0xB3] @ ''n'', ''Puzzle'', ''Plataformas'']"

text \<open>The image validator: \<^verbatim>\<open>!v || /^https?:\/\/.+/.test(v)\<close>.\<close>

definition trasPrefijo :: "string \<Rightarrow> string \<Rightarrow> bool" where
  "trasPrefijo p v = (take (length p) v = p \<and> length p < length v \<and> \<not> finDeLinea (v ! length p))"

definition imagenValida :: "string \<Rightarrow> bool" where
  "imagenValida v = (v = [] \<or> trasPrefijo ''http://'' v \<or> trasPrefijo ''https://'' v)"

text \<open>
  \<^verbatim>\<open>new Juego({...datos, fechaCreacion: new Date()})\<close> followed by the validation that
  \<^verbatim>\<open>save()\<close> runs: strings are trimmed, defaults fill the absent optional fields, and
  a missing required field, a value out of range or a category outside the list is a
  ValidationError.
\<close>

definition validarEsquemaJuego :: "int \<Rightarrow> string \<Rightarrow> int \<Rightarrow> datosJuego \<Rightarrow> error + juego" where
  "validarEsquemaJuego anioMax ident ahora d =
     (case (d_nombre d, d_anio d, d_genero d, d_plataforma d) of
        (Some n, Some a, Some g, Some p) \<Rightarrow>
          (let imagenD = trim (case d_imagen d of None \<Rightarrow> [] | Some v \<Rightarrow> v);
               resenaD = trim (case d_resena d of None \<Rightarrow> [] | Some v \<Rightarrow> v);
               desarrolladorD = trim (case d_desarrollador d of None \<Rightarrow> [] | Some v \<Rightarrow> v);
               tiendaD = trim (case d_tienda d of None \<Rightarrow> [] | Some v \<Rightarrow> v);
               horasD = (case d_horasJugadas d of None \<Rightarrow> 0 | Some v \<Rightarrow> v)
           in if trim n \<noteq> [] \<and> longitud (trim n) \<le> 100
                 \<and> 1970 \<le> a \<and> a \<le> anioMax
                 \<and> trim g \<in> set generosValidos
                 \<and> trim p \<noteq> []
                 \<and> imagenValida imagenD
                 \<and> longitud resenaD \<le> 2000
                 \<and> longitud desarrolladorD \<le> 100
                 \<and> longitud tiendaD \<le> 50
                 \<and> 0 \<le> horasD \<and> horasD \<le> 10000
              then Inr \<lparr> j_id = ident, nombre = trim n, anio = a, genero = trim g,
                         plataforma = trim p, imagen = imagenD, resena = resenaD,
                         desarrollador = desarrolladorD, tienda = tiendaD,
                         completado = (case d_completado d of None \<Rightarrow> False | Some c \<Rightarrow> c),
                         horasJugadas = horasD, fechaCreacion = ahora, fechaActualizacion = ahora \<rparr>
              else Inl ValidationError)
      | _ \<Rightarrow> Inl ValidationError)"

text \<open>
  The clock reading and the identifier the driver generates for the document being saved.
\<close>

record reloj =
  ahora :: int
  nuevoId :: string

text \<open>The insert of \<^verbatim>\<open>save()\<close>: an identifier already in the collection is a duplicate key.\<close>

definition insertarJuego :: "juego \<Rightarrow> almacen \<Rightarrow> error + almacen" where
  "insertarJuego j s =
     (if j_id j \<in> set (map j_id (juegos s)) then Inl Duplicado
      else Inr (s\<lparr>juegos := juegos s @ [j]\<rparr>))"

text \<open>
  \<^verbatim>\<open>Juego.findOne({ nombre: new RegExp(`^${nombre}$`, 'i') })\<close>: the title goes into the
  pattern as it is; an absent title is the text \<^verbatim>\<open>undefined\<close>.
\<close>

definition patronNombre :: "string option \<Rightarrow> string" where
  "patronNombre n = ''^'' @ (case n of None \<Rightarrow> ''undefined'' | Some t \<Rightarrow> t) @ ''$''"

definition findOnePorNombre :: "host \<Rightarrow> string option \<Rightarrow> almacen \<Rightarrow> error + juego option" where
  "findOnePorNombre h n s =
     (case regexI h (patronNombre n) of
        None \<Rightarrow> Inl SyntaxError
      | Some prueba \<Rightarrow> Inr (find (\<lambda>j. prueba (nombre j)) (juegos s)))"

text \<open>
  \<^verbatim>\<open>JuegoService.crear\<close>: a game with a matching name ends the operation, with a plain
  error thrown inside the frame, before anything is validated or written; every failure
  leaves the service as a plain error with the prefixed message.
\<close>

definition crear :: "host \<Rightarrow> reloj \<Rightarrow> datosJuego \<Rightarrow> almacen \<Rightarrow> (error + jsval) \<times> almacen" where
  "crear h r datos s =
     apfst (relanzar h ''Error creando juego: '')
       (case findOnePorNombre h (d_nombre datos) s of
          Inl e \<Rightarrow> (Inl e, s)
        | Inr (Some existente) \<Rightarrow> (Inl (ErrorPlano ''Ya existe un juego con ese nombre''), s)
        | Inr None \<Rightarrow>
            (case validarEsquemaJuego (anioActual h + 2) (nuevoId r) (ahora r) datos of
               Inl e \<Rightarrow> (Inl e, s)
             | Inr nuevoJuego \<Rightarrow>
                 (case insertarJuego nuevoJuego s of
                    Inl e \<Rightarrow> (Inl e, s)
                  | Inr s' \<Rightarrow> (Inr (transformarAFrontend_srv h (documento nuevoJuego)), s'))))"

text \<open>
  The controller's \<^verbatim>\<open>crearJuego\<close>: the same steps on the model itself; a matching name is
  \<^verbatim>\<open>crearError("Ya existe un juego con ese nombre", 409)\<close> and any other failure goes to
  the error handler as it is.
\<close>

definition crearJuego :: "host \<Rightarrow> reloj \<Rightarrow> datosJuego \<Rightarrow> almacen \<Rightarrow> (error + jsval) \<times> almacen" where
  "crearJuego h r datos s =
     (case findOnePorNombre h (d_nombre datos) s of
        Inl e \<Rightarrow> (Inl e, s)
      | Inr (Some juegoExistente) \<Rightarrow> (Inl Duplicado, s)
      | Inr None \<Rightarrow>
          (case validarEsquemaJuego (anioActual h + 2) (nuevoId r) (ahora r) datos of
             Inl e \<Rightarrow> (Inl e, s)
           | Inr nuevoJuego \<Rightarrow>
               (case insertarJuego nuevoJuego s of
                  Inl e \<Rightarrow> (Inl e, s)
                | Inr s' \<Rightarrow> (Inr (transformarAFrontend_srv h (documento nuevoJuego)), s'))))"

text \<open>\<^verbatim>\<open>JuegoService.obtenerPorId\<close>: read by identifier.\<close>

definition obtenerPorId :: "host \<Rightarrow> jsval \<Rightarrow> almacen \<Rightarrow> error + jsval" where
  "obtenerPorId h v s =
     relanzar h ''Error obteniendo juego: ''
       (case findByIdJuego h s v of
          Inl e \<Rightarrow> Inl e
        | Inr None \<Rightarrow> Inl (ErrorPlano ''Juego no encontrado'')
        | Inr (Some j) \<Rightarrow> Inr (transformarAFrontend_srv h (documento j)))"

section \<open>Listing games (src/services/juegoService.js, src/controllers/juegoController.js)\<close>

text \<open>
  The numbers of the pagination are IEEE doubles that hold integers: not-a-number, a finite
  integer, or an infinity (\<open>Infinito True\<close> is the positive one). Zero is modelled without
  its sign.
\<close>

datatype numero = NaN | Num int | Infinito bool

text \<open>The number of binary digits of a natural number.\<close>

fun bits :: "nat \<Rightarrow> nat" where
  "bits n = (if n = 0 then 0 else Suc (bits (n div 2)))"

declare bits.simps [simp del]

text \<open>
  The double nearest to an integer: the integer itself up to 2^53 in magnitude; beyond, the
  53 leading binary digits are kept and the rest is rounded to the nearest, ties to the even
  neighbour, and a result of 2^1024 or more is an infinity.
\<close>

definition doble :: "int \<Rightarrow> numero" where
  "doble n =
     (if \<bar>n\<bar> \<le> 2 ^ 53 then Num n
      else let a = nat \<bar>n\<bar>;
               q = 2 ^ (bits a - 53);
               m = a div q;
               r = a mod q;
               m' = (if 2 * r < q then m else if q < 2 * r then m + 1
                     else if even m then m else m + 1)
           in if 2 ^ 1024 \<le> m' * q then Infinito (0 < n)
              else Num (if 0 < n then int (m' * q) else - int (m' * q)))"

text \<open>\<^verbatim>\<open>x - k\<close> and \<^verbatim>\<open>x * y\<close>: the exact result, rounded to a double.\<close>

definition menos :: "numero \<Rightarrow> int \<Rightarrow> numero" where
  "menos x k = (case x of Num a \<Rightarrow> doble (a - k) | _ \<Rightarrow> x)"

definition por :: "numero \<Rightarrow> numero \<Rightarrow> numero" where
  "por x y =
     (case x of
        NaN \<Rightarrow> NaN
      | Num a \<Rightarrow>
          (case y of
             NaN \<Rightarrow> NaN
           | Num b \<Rightarrow> doble (a * b)
           | Infinito p \<Rightarrow> if a = 0 then NaN else Infinito (p = (0 < a)))
      | Infinito p \<Rightarrow>
          (case y of
             NaN \<Rightarrow> NaN
           | Num b \<Rightarrow> if b = 0 then NaN else Infinito (p = (0 < b))
           | Infinito p' \<Rightarrow> Infinito (p = p')))"



text \<open>
  \<^verbatim>\<open>parseInt(s)\<close>: leading white space, a sign, the prefix \<^verbatim>\<open>0x\<close> for base 16, then the
  longest run of digits, read as the double nearest to the integer they denote; NaN when
  there is no digit.
\<close>

definition digito :: "nat \<Rightarrow> char \<Rightarrow> nat option" where
  "digito base c =
     (let n = (of_char c :: nat);
          v = (if 48 \<le> n \<and> n \<le> 57 then Some (n - 48)
               else if 97 \<le> n \<and> n \<le> 122 then Some (n - 87)
               else if 65 \<le> n \<and> n \<le> 90 then Some (n - 55)
               else None)
      in case v of None \<Rightarrow> None | Some d \<Rightarrow> if d < base then Some d else None)"

fun digitos :: "nat \<Rightarrow> string \<Rightarrow> nat list" where
  "digitos base [] = []"
| "digitos base (c # cs) = (case digito base c of None \<Rightarrow> [] | Some d \<Rightarrow> d # digitos base cs)"

definition valor :: "nat \<Rightarrow> nat list \<Rightarrow> nat" where
  "valor base ds = foldl (\<lambda>a d. a * base + d) 0 ds"

definition magnitud :: "string \<Rightarrow> nat option" where
  "magnitud u =
     (let hex = (take 2 u = ''0x'' \<or> take 2 u = ''0X'');
          base = (if hex then 16 else 10);
          ds = digitos base (if hex then drop 2 u else u)
      in if ds = [] then None else Some (valor base ds))"

definition parseInt :: "string \<Rightarrow> numero" where
  "parseInt s =
     (case trimStart s of
        [] \<Rightarrow> NaN
      | c # cs \<Rightarrow>
          if c = CHR ''-'' then (case magnitud cs of None \<Rightarrow> NaN | Some n \<Rightarrow> doble (- int n))
          else if c = CHR ''+'' then (case magnitud cs of None \<Rightarrow> NaN | Some n \<Rightarrow> doble (int n))
          else (case magnitud (c # cs) of None \<Rightarrow> NaN | Some n \<Rightarrow> doble (int n)))"

text \<open>
  A numeric parameter of the query string: \<^verbatim>\<open>parseInt\<close> of its text, or of the default
  when the parameter is absent (the defaults are 1, 10 and 100).
\<close>

definition conDefecto :: "int \<Rightarrow> string option \<Rightarrow> numero" where
  "conDefecto d t = (case t of None \<Rightarrow> Num d | Some v \<Rightarrow> parseInt v)"



text \<open>The criteria of a listing request: the values of the query string, each absent or a text.\<close>

record filtros =
  f_genero :: "string option"
  f_plataforma :: "string option"
  f_completado :: "string option"
  f_buscar :: "string option"
  f_anioDesde :: "string option"
  f_anioHasta :: "string option"
  f_limite :: "string option"
  f_pagina :: "string option"
  f_ordenarPor :: "string option"
  f_orden :: "string option"

text \<open>A criterion is applied when its text is truthy, that is present and not empty.\<close>

definition dado :: "string option \<Rightarrow> bool" where
  "dado t = (case t of None \<Rightarrow> False | Some v \<Rightarrow> v \<noteq> [])"

text \<open>
  One condition of the query on a text field: no criterion, or the search of a regular
  expression built from the criterion; building it may raise a SyntaxError.
\<close>

definition condicionRegex :: "host \<Rightarrow> string option \<Rightarrow> error + (string \<Rightarrow> bool)" where
  "condicionRegex h t =
     (if dado t then (case regexI h (the t) of None \<Rightarrow> Inl SyntaxError | Some prueba \<Rightarrow> Inr prueba)
      else Inr (\<lambda>v. True))"

text \<open>
  A lower or an upper bound on the release year: the store rejects a bound that is not a
  number, and every year lies between the two infinities.
\<close>

definition condicionAnio :: "string option \<Rightarrow> bool \<Rightarrow> error + (int \<Rightarrow> bool)" where
  "condicionAnio t inferior =
     (if dado t then
        (case parseInt (the t) of
           NaN \<Rightarrow> Inl CastError
         | Num n \<Rightarrow> Inr (\<lambda>a. if inferior then n \<le> a else a \<le> n)
         | Infinito p \<Rightarrow> Inr (\<lambda>a. p \<noteq> inferior))
      else Inr (\<lambda>a. True))"

definition construirQuery :: "host \<Rightarrow> filtros \<Rightarrow> error + (juego \<Rightarrow> bool)" where
  "construirQuery h f =
     ligar (condicionRegex h (f_genero f)) (\<lambda>porGenero.
     ligar (condicionRegex h (f_plataforma f)) (\<lambda>porPlataforma.
     ligar (condicionAnio (f_anioDesde f) True) (\<lambda>desde.
     ligar (condicionAnio (f_anioHasta f) False) (\<lambda>hasta.
     ligar (condicionRegex h (f_buscar f)) (\<lambda>porTexto.
     Inr (\<lambda>j. porGenero (genero j) \<and> porPlataforma (plataforma j)
              \<and> (case f_completado f of None \<Rightarrow> True | Some c \<Rightarrow> completado j = (c = ''true''))
              \<and> desde (anio j) \<and> hasta (anio j)
              \<and> (if dado (f_buscar f)
                  then porTexto (nombre j) \<or> porTexto (desarrollador j) \<or> porTexto (tienda j)
                       \<or> porTexto (resena j)
                  else True)))))))"

text \<open>
  \<^verbatim>\<open>.limit(n)\<close> and \<^verbatim>\<open>.skip(k)\<close> with a number: the store takes an integer of at most 64
  bits; it rejects NaN, an infinity, an integer of 2^63 or more in magnitude and a negative
  skip. \<^verbatim>\<open>.limit(n).skip(k)\<close> skips first and then limits.
\<close>

definition limitarA :: "numero \<Rightarrow> 'a list \<Rightarrow> error + 'a list" where
  "limitarA n xs =
     (case n of
        Num l \<Rightarrow> if 2 ^ 63 \<le> \<bar>l\<bar> then Inl ErrorConsulta else Inr (limitar l xs)
      | _ \<Rightarrow> Inl ErrorConsulta)"

definition saltar :: "numero \<Rightarrow> 'a list \<Rightarrow> error + 'a list" where
  "saltar n xs =
     (case n of
        Num k \<Rightarrow> if k < 0 \<or> 2 ^ 63 \<le> k then Inl ErrorConsulta else Inr (drop (nat k) xs)
      | _ \<Rightarrow> Inl ErrorConsulta)"

definition paginar :: "numero \<Rightarrow> numero \<Rightarrow> 'a list \<Rightarrow> error + 'a list" where
  "paginar limite skip xs = ligar (saltar skip xs) (limitarA limite)"

text \<open>
  \<^verbatim>\<open>Math.ceil(total / limite)\<close> for the count of a collection, which is a natural number
  below 2^53: the quotient of such a count by an integer, rounded to a double, has the ceiling
  of the exact quotient. A count divided by zero is an infinity, or NaN when the count is zero
  too, and a count divided by an infinity is zero.
\<close>

definition totalDePaginas :: "nat \<Rightarrow> numero \<Rightarrow> numero" where
  "totalDePaginas cuenta limite =
     (case limite of
        NaN \<Rightarrow> NaN
      | Num l \<Rightarrow>
          if l = 0 then (if cuenta = 0 then NaN else Infinito True)
          else Num \<lceil>(of_nat cuenta :: rat) / of_int l\<rceil>
      | Infinito p \<Rightarrow> Num 0)"

record listado =
  l_juegos :: "jsval list"
  paginaActual :: numero
  totalPaginas :: numero
  totalJuegos :: nat
  juegosPorPagina :: numero

text \<open>
  \<^verbatim>\<open>JuegoService.obtenerTodos\<close>: the limit defaults to 100, the page to 1, the sort field to
  the creation date and the direction to descending; the sort field is applied as given, and
  neither the page nor the limit is checked before the query. Any failure leaves the service
  as a plain error with the prefixed message.
\<close>

definition obtenerTodos :: "host \<Rightarrow> filtros \<Rightarrow> almacen \<Rightarrow> error + listado" where
  "obtenerTodos h f s =
     relanzar h ''Error obteniendo juegos: ''
       (ligar (construirQuery h f) (\<lambda>query.
          let limite = conDefecto 100 (f_limite f);
              pagina = conDefecto 1 (f_pagina f);
              ordenarPor = (case f_ordenarPor f of None \<Rightarrow> ''fechaCreacion'' | Some c \<Rightarrow> c);
              skip = por (menos pagina 1) limite
          in ligar (paginar limite skip
                      (sortPor ordenarPor (f_orden f = Some ''asc'') (filter query (juegos s)))) (\<lambda>encontrados.
             Inr \<lparr> l_juegos = transformarArrayAFrontend_srv h (JArr (map documento encontrados)),
                   paginaActual = pagina,
                   totalPaginas = totalDePaginas (length (filter query (juegos s))) limite,
                   totalJuegos = length (filter query (juegos s)),
                   juegosPorPagina = limite \<rparr>)))"

text \<open>
  The controller's own listing: the free-text search covers the name, the developer and the
  shop; the sort is applied only when the field is in the list of sortable fields; the limit
  is applied when it is given, is a number and is positive.
\<close>

definition ordenamientoValido :: "string list" where
  "ordenamientoValido = [''nombre'', c_anio, ''fechaCreacion'', ''genero'', ''plataforma'']"

definition construirFiltro :: "host \<Rightarrow> filtros \<Rightarrow> error + (juego \<Rightarrow> bool)" where
  "construirFiltro h f =
     ligar (condicionRegex h (f_genero f)) (\<lambda>porGenero.
     ligar (condicionRegex h (f_plataforma f)) (\<lambda>porPlataforma.
     ligar (condicionRegex h (f_buscar f)) (\<lambda>porTexto.
     Inr (\<lambda>j. porGenero (genero j) \<and> porPlataforma (plataforma j)
              \<and> (case f_completado f of None \<Rightarrow> True | Some c \<Rightarrow> completado j = (c = ''true''))
              \<and> (if dado (f_buscar f)
                  then porTexto (nombre j) \<or> porTexto (desarrollador j) \<or> porTexto (tienda j)
                  else True)))))"

definition limiteAplicable :: "host \<Rightarrow> string option \<Rightarrow> bool" where
  "limiteAplicable h t =
     (dado t \<and> (case numeroDeTexto h (the t) of None \<Rightarrow> False | Some n \<Rightarrow> 0 < n))"

definition obtenerTodosLosJuegos :: "host \<Rightarrow> filtros \<Rightarrow> almacen \<Rightarrow> error + jsval list" where
  "obtenerTodosLosJuegos h f s =
     ligar (construirFiltro h f) (\<lambda>filtro.
       let ordenarPor = (case f_ordenarPor f of None \<Rightarrow> ''fechaCreacion'' | Some c \<Rightarrow> c);
           ordenados = (if ordenarPor \<in> set ordenamientoValido
                        then sortPor ordenarPor (f_orden f = Some ''asc'') (filter filtro (juegos s))
                        else filter filtro (juegos s))
       in ligar (if limiteAplicable h (f_limite f)
                 then limitarA (parseInt (the (f_limite f))) ordenados
                 else Inr ordenados) (\<lambda>encontrados.
          Inr (transformarArrayAFrontend_srv h (JArr (map documento encontrados)))))"

section \<open>Creating a review (funciones/resenias/post.js, src/services/reseniaService.js)\<close>

text \<open>
  \<^verbatim>\<open>validarObjectId(id)\<close> on a value of the request body: the regular expression tests
  the text of the value.
\<close>

definition validarObjectId :: "host \<Rightarrow> jsval \<Rightarrow> error + bool" where
  "validarObjectId h v =
     (case v of
        JStr t \<Rightarrow> Inr (validarObjectIdTexto t)
      | JObjectId i \<Rightarrow> Inr (validarObjectIdTexto i)
      | JObj kvs \<Rightarrow> ligar (aTexto h v) (\<lambda>t. Inr (validarObjectIdTexto t))
      | JArr xs \<Rightarrow> ligar (aTexto h v) (\<lambda>t. Inr (validarObjectIdTexto t))
      | JDate d \<Rightarrow> ligar (aTexto h v) (\<lambda>t. Inr (validarObjectIdTexto t))
      | _ \<Rightarrow> Inr False)"

text \<open>Mongoose's cast of a value to a Number; \<open>None\<close> is a failed cast.\<close>

definition castNumero :: "host \<Rightarrow> jsval \<Rightarrow> rat option" where
  "castNumero h v =
     (case v of
        JArr xs \<Rightarrow> None
      | JObj kvs \<Rightarrow> None
      | _ \<Rightarrow> (case aNumero h v of JNum n \<Rightarrow> Some n | _ \<Rightarrow> None))"

definition insertarResenia :: "resenia \<Rightarrow> almacen \<Rightarrow> error + almacen" where
  "insertarResenia r s =
     (if r_id r \<in> set (map r_id (resenias s)) then Inl Duplicado
      else Inr (s\<lparr>resenias := resenias s @ [r]\<rparr>))"

text \<open>The request body of the legacy handler.\<close>

record cuerpoResenia =
  b_juegoId :: jsval
  b_comentario :: jsval
  b_puntuacion :: jsval
  b_nombreUsuario :: jsval

text \<open>
  \<^verbatim>\<open>puntuacion < 1 || puntuacion > 5\<close>: a comparison with NaN is false.
\<close>

definition fueraDeRango :: "host \<Rightarrow> jsval \<Rightarrow> bool" where
  "fueraDeRango h v = (case aNumero h v of JNum n \<Rightarrow> n < 1 \<or> 5 < n | _ \<Rightarrow> False)"

text \<open>
  The legacy schema (models/resenia.js) keeps of the four fields only the reference and the
  rating, which must cast to a number between 1 and 5, and fills its defaults.
\<close>

definition validarEsquemaReseniaLegado :: "host \<Rightarrow> reloj \<Rightarrow> string \<Rightarrow> jsval \<Rightarrow> error + resenia" where
  "validarEsquemaReseniaLegado h r juegoRef puntuacion =
     (case castNumero h puntuacion of
        None \<Rightarrow> Inl ValidationError
      | Some n \<Rightarrow>
          if n < 1 \<or> 5 < n then Inl ValidationError
          else Inr \<lparr> r_id = nuevoId r, r_juegoId = juegoRef,
                     r_campos = [(''puntuacion'', JNum n), (''dificultad'', JStr ''Normal''),
                                 (''recomendaria'', JBool True), (''fechaCreacion'', JDate (ahora r)),
                                 (''fechaActualizacion'', JDate (ahora r))] \<rparr>)"

text \<open>
  The saved review as the handler answers it, after \<^verbatim>\<open>populate('juegoId', 'titulo')\<close>:
  the game documents of this store carry no \<^verbatim>\<open>titulo\<close>, so the populated reference holds
  the identifier only.
\<close>

definition reseniaPobladaLegado :: "juego \<Rightarrow> resenia \<Rightarrow> jsval" where
  "reseniaPobladaLegado j x =
     JObj ((''_id'', JObjectId (r_id x)) # (''juegoId'', JObj [(''_id'', JObjectId (j_id j))]) # r_campos x)"

definition crearResenia :: "host \<Rightarrow> reloj \<Rightarrow> cuerpoResenia \<Rightarrow> almacen \<Rightarrow> (error + jsval) \<times> almacen" where
  "crearResenia h r b s =
     (case validarObjectId h (b_juegoId b) of
        Inl e \<Rightarrow> (Inl e, s)
      | Inr False \<Rightarrow> (Inl ArgumentoInvalido, s)
      | Inr True \<Rightarrow>
          (case findByIdJuego h s (b_juegoId b) of
             Inl e \<Rightarrow> (Inl e, s)
           | Inr None \<Rightarrow> (Inl NoEncontrado, s)
           | Inr (Some juegoExiste) \<Rightarrow>
               if \<not> truthy (b_comentario b) \<or> \<not> truthy (b_puntuacion b) \<or> \<not> truthy (b_nombreUsuario b)
               then (Inl ArgumentoInvalido, s)
               else if fueraDeRango h (b_puntuacion b) then (Inl ArgumentoInvalido, s)
               else (case validarEsquemaReseniaLegado h r (j_id juegoExiste) (b_puntuacion b) of
                       Inl e \<Rightarrow> (Inl e, s)
                     | Inr nuevaResenia \<Rightarrow>
                         (case insertarResenia nuevaResenia s of
                            Inl e \<Rightarrow> (Inl e, s)
                          | Inr s' \<Rightarrow> (Inr (reseniaPobladaLegado juegoExiste nuevaResenia), s')))))"

text \<open>The data the review service receives.\<close>

record datosResenia =
  s_juegoId :: jsval
  s_contenido :: jsval
  s_calificacion :: jsval
  s_autor :: jsval

text \<open>Mongoose's cast of a value to a String.\<close>

definition castTexto :: "host \<Rightarrow> jsval \<Rightarrow> error + string" where
  "castTexto h v =
     (case v of
        JStr t \<Rightarrow> Inr t
      | JBool b \<Rightarrow> Inr (if b then ''true'' else ''false'')
      | JObjectId i \<Rightarrow> Inr i
      | JUndefined \<Rightarrow> Inl CastError
      | JNull \<Rightarrow> Inl CastError
      | _ \<Rightarrow> (case aTexto h v of Inl e \<Rightarrow> Inl CastError | Inr t \<Rightarrow> Inr t))"

text \<open>
  \<^verbatim>\<open>Resenia.findOne({ juegoId, autor })\<close>, asked only for a truthy author other than the
  anonymous default.
\<close>

definition reseniaDelAutor :: "host \<Rightarrow> string \<Rightarrow> jsval \<Rightarrow> almacen \<Rightarrow> error + resenia option" where
  "reseniaDelAutor h juegoRef autor s =
     (if truthy autor \<and> autor \<noteq> JStr Anonimo then
        ligar (castTexto h autor) (\<lambda>t.
          Inr (find (\<lambda>x. r_juegoId x = juegoRef \<and> map_of (r_campos x) ''autor'' = Some (JStr t))
                 (resenias s)))
      else Inr None)"

text \<open>
  The canonical schema (src/models/resenia.js): the body is required, trimmed and of length 10
  to 2000, the rating is required and an integer from 1 to 5, the author is trimmed and of
  length at most 50; the remaining fields take their defaults.
\<close>

definition validarEsquemaResenia ::
    "host \<Rightarrow> reloj \<Rightarrow> string \<Rightarrow> string \<Rightarrow> jsval \<Rightarrow> jsval \<Rightarrow> error + resenia" where
  "validarEsquemaResenia h r juegoRef contenido calificacion autor =
     (case castTexto h autor of
        Inl e \<Rightarrow> Inl ValidationError
      | Inr a \<Rightarrow>
          if calificacion = JUndefined \<or> calificacion = JNull then Inl ValidationError
          else (case castNumero h calificacion of
                  None \<Rightarrow> Inl ValidationError
                | Some n \<Rightarrow>
                    if trim contenido \<noteq> [] \<and> 10 \<le> longitud (trim contenido)
                       \<and> longitud (trim contenido) \<le> 2000
                       \<and> 1 \<le> n \<and> n \<le> 5 \<and> n = of_int \<lfloor>n\<rfloor>
                       \<and> longitud (trim a) \<le> 50
                    then Inr \<lparr> r_id = nuevoId r, r_juegoId = juegoRef,
                               r_campos = [(''contenido'', JStr (trim contenido)),
                                           (''calificacion'', JNum n),
                                           (''autor'', JStr (trim a)),
                                           (''dificultad'', JStr ''Normal''),
                                           (''recomendaria'', JBool True),
                                           (''horasJugadas'', JNum 0),
                                           (''fechaCreacion'', JDate (ahora r)),
                                           (''fechaActualizacion'', JDate (ahora r)),
                                           (''tags'', JArr []),
                                           (''likes'', JNum 0),
                                           (''dislikes'', JNum 0)] \<rparr>
                    else Inl ValidationError))"

text \<open>
  The saved review read back with its game populated (\<^verbatim>\<open>populate('juegoId', 'nombre genero')\<close>);
  the saved document holds every field of the schema.
\<close>

definition reseniaPoblada :: "juego \<Rightarrow> resenia \<Rightarrow> jsval" where
  "reseniaPoblada j x =
     JObj ((''_id'', JObjectId (r_id x))
           # (''juegoId'', JObj [(''_id'', JObjectId (j_id j)), (''nombre'', JStr (nombre j)),
                                 (''genero'', JStr (genero j))])
           # r_campos x)"

text \<open>
  \<^verbatim>\<open>ReseniaService.crear\<close>: the game is looked up, then a review of the same author, then
  the review is built with \<^verbatim>\<open>contenido.trim()\<close>, saved and read back. A missing game and
  an existing review are plain errors thrown inside the frame, and every failure leaves the
  service as a plain error with the prefixed message.
\<close>

definition crearReseniaServicio ::
    "host \<Rightarrow> reloj \<Rightarrow> datosResenia \<Rightarrow> almacen \<Rightarrow> (error + jsval) \<times> almacen" where
  "crearReseniaServicio h r d s =
     apfst (relanzar h (''Error creando '' @ c_resenia @ '': ''))
       (case findByIdJuego h s (s_juegoId d) of
          Inl e \<Rightarrow> (Inl e, s)
        | Inr None \<Rightarrow> (Inl (ErrorPlano ''Juego no encontrado''), s)
        | Inr (Some juegoExiste) \<Rightarrow>
            (case reseniaDelAutor h (j_id juegoExiste) (s_autor d) s of
               Inl e \<Rightarrow> (Inl e, s)
             | Inr (Some reseniaExistente) \<Rightarrow>
                 (Inl (ErrorPlano (''Ya tienes una '' @ c_resenia @ '' para este juego'')), s)
             | Inr None \<Rightarrow>
                 (case s_contenido d of
                    JStr contenido \<Rightarrow>
                      (case validarEsquemaResenia h r (j_id juegoExiste) (trim contenido)
                              (s_calificacion d) (jsOr (s_autor d) (JStr Anonimo)) of
                         Inl e \<Rightarrow> (Inl e, s)
                       | Inr nuevaResenia \<Rightarrow>
                           (case insertarResenia nuevaResenia s of
                              Inl e \<Rightarrow> (Inl e, s)
                            | Inr s' \<Rightarrow>
                                (Inr (transformarReseniaAFrontend_srv h
                                        (reseniaPoblada juegoExiste nuevaResenia)),
                                 s')))
                  | _ \<Rightarrow> (Inl TypeError, s))))"

section \<open>Reading a review (src/services/reseniaService.js, src/controllers/reseniaController.js)\<close>

text \<open>
  A query that is not lean hands the mapper a Mongoose document, not the stored record. The
  document has the paths of the schema (src/models/resenia.js), and a path that the stored
  record lacks has the default of the schema, which Mongoose applies when it builds the
  document; a path without a default stays \<^verbatim>\<open>undefined\<close>. The stored values are those
  written through the schema.
\<close>

definition valoresPorDefecto :: "int \<Rightarrow> (string \<times> jsval) list" where
  "valoresPorDefecto instante =
     [(''autor'', JStr Anonimo), (''dificultad'', JStr ''Normal''),
      (''recomendaria'', JBool recomendaria_default), (''horasJugadas'', JNum 0),
      (''fechaCreacion'', JDate instante), (''fechaActualizacion'', JDate instante),
      (''tags'', JArr []), (''likes'', JNum 0), (''dislikes'', JNum 0)]"

definition rutasResenia :: "string list" where
  "rutasResenia =
     [''contenido'', ''calificacion'', ''autor'', ''dificultad'', ''recomendaria'', ''horasJugadas'',
      ''fechaCreacion'', ''fechaActualizacion'', ''tags'', ''likes'', ''dislikes'']"

definition hidratar :: "int \<Rightarrow> (string \<times> jsval) list \<Rightarrow> (string \<times> jsval) list" where
  "hidratar instante campos =
     map (\<lambda>k. (k, if leer (JObj campos) k \<noteq> JUndefined then leer (JObj campos) k
                  else leer (JObj (valoresPorDefecto instante)) k)) rutasResenia"

text \<open>
  \<^verbatim>\<open>populate('juegoId', seleccion)\<close>: the reference becomes the document of the game with
  its identifier and the selected fields, or \<^verbatim>\<open>null\<close> when no game has the identifier.
\<close>

definition camposDe :: "jsval \<Rightarrow> (string \<times> jsval) list" where
  "camposDe v = (case v of JObj kvs \<Rightarrow> kvs | _ \<Rightarrow> [])"

definition poblar :: "string list \<Rightarrow> almacen \<Rightarrow> string \<Rightarrow> jsval" where
  "poblar seleccion s ref =
     (case find (\<lambda>j. j_id j = ref) (juegos s) of
        None \<Rightarrow> JNull
      | Some j \<Rightarrow>
          JObj (filter (\<lambda>cv. fst cv = ''_id'' \<or> fst cv \<in> set seleccion) (camposDe (documento j))))"

text \<open>The document of a stored review, built at a given time, with its game populated.\<close>

definition documentoResenia :: "int \<Rightarrow> string list \<Rightarrow> almacen \<Rightarrow> resenia \<Rightarrow> jsval" where
  "documentoResenia instante seleccion s x =
     JObj ((''_id'', JObjectId (r_id x)) # (''juegoId'', poblar seleccion s (r_juegoId x))
           # hidratar instante (r_campos x))"

text \<open>
  \<^verbatim>\<open>ReseniaService.obtenerPorId\<close>:
  \<^verbatim>\<open>Resenia.findById(id).populate('juegoId', 'nombre genero imagen')\<close>, then the mapper.
\<close>

definition obtenerPorId_resenia :: "host \<Rightarrow> reloj \<Rightarrow> jsval \<Rightarrow> almacen \<Rightarrow> error + jsval" where
  "obtenerPorId_resenia h r v s =
     relanzar h (''Error obteniendo '' @ c_resenia @ '': '')
       (case findByIdResenia h s v of
          Inl e \<Rightarrow> Inl e
        | Inr None \<Rightarrow> Inl (ErrorPlano (''Rese'' @ [CHR 0xC3, CHR 0xB1] @ ''a no encontrada''))
        | Inr (Some x) \<Rightarrow>
            Inr (transformarReseniaAFrontend_srv h
                   (documentoResenia (ahora r) [''nombre'', ''genero'', ''imagen''] s x)))"

text \<open>
  The controller's \<^verbatim>\<open>obtenerReseniaPorId\<close>:
  \<^verbatim>\<open>Resenia.findById(id).populate('juegoId', 'nombre genero')\<close>, a missing review is
  \<^verbatim>\<open>crearError(..., 404)\<close>, then the same mapper.
\<close>

definition obtenerReseniaPorId :: "host \<Rightarrow> reloj \<Rightarrow> jsval \<Rightarrow> almacen \<Rightarrow> error + jsval" where
  "obtenerReseniaPorId h r v s =
     (case findByIdResenia h s v of
        Inl e \<Rightarrow> Inl e
      | Inr None \<Rightarrow> Inl NoEncontrado
      | Inr (Some x) \<Rightarrow>
          Inr (transformarReseniaAFrontend_srv h
                 (documentoResenia (ahora r) [''nombre'', ''genero''] s x)))"

section \<open>Example data\<close>

text \<open>
  A host used to evaluate the service on concrete inputs: it casts to an ObjectId the
  strings of 24 hexadecimal digits, has the regular expressions of the fragment above, knows
  the text of plain objects only, reads as numbers the empty text and the unsigned decimal
  integers, converts the dates that are Date objects, and gives every failure of a kind one
  message.
\<close>

definition hostBasico :: host where
  "hostBasico = \<lparr> aTexto = (\<lambda>v. case v of JObj kvs \<Rightarrow> Inr ''[object Object]'' | _ \<Rightarrow> Inl TypeError),
                   numeroDeTexto = (\<lambda>s. if list_all (\<lambda>c. digito 10 c \<noteq> None) (trim s)
                                        then Some (of_nat (valor 10 (digitos 10 (trim s)))) else None),
                   fechaISO = (\<lambda>v. case v of JDate ms \<Rightarrow> textoISO ms | _ \<Rightarrow> None),
                   anioActual = 2025,
                   casteaObjectId = (\<lambda>v. case v of
                        JStr s \<Rightarrow> if validarObjectIdTexto s then Some (map minuscula s) else None
                      | JObjectId i \<Rightarrow> Some i
                      | _ \<Rightarrow> None),
                   regexI = regexBasico,
                   mensajeDe = (\<lambda>e. case e of
                        CastError \<Rightarrow> ''Cast failed''
                      | ValidationError \<Rightarrow> ''Validation failed''
                      | ErrorConsulta \<Rightarrow> ''Query failed''
                      | _ \<Rightarrow> ''Error'') \<rparr>"

text \<open>
  A small store: three games with 0, 5 and 10 hours, created in that order, and a review of
  the second.
\<close>

definition juegoDe :: "string \<Rightarrow> string \<Rightarrow> rat \<Rightarrow> bool \<Rightarrow> int \<Rightarrow> juego" where
  "juegoDe i n hrs c t =
     \<lparr> j_id = i, nombre = n, anio = 2020, genero = ''RPG'', plataforma = ''PC'', imagen = '''',
       resena = '''', desarrollador = '''', tienda = '''', completado = c, horasJugadas = hrs,
       fechaCreacion = t, fechaActualizacion = t \<rparr>"

definition almacenEjemplo :: almacen where
  "almacenEjemplo =
     \<lparr> juegos = [juegoDe ''a1'' ''Uno'' 0 False 1000, juegoDe ''a2'' ''Dos'' 5 True 2000, juegoDe ''a3'' ''Tres'' 10 False 3000],
       resenias = [\<lparr> r_id = ''r1'', r_juegoId = ''a2'', r_campos = [(''calificacion'', JNum 4)] \<rparr>] \<rparr>"


definition filtrosVacios :: filtros where
  "filtrosVacios = \<lparr> f_genero = None, f_plataforma = None, f_completado = None, f_buscar = None,
                      f_anioDesde = None, f_anioHasta = None, f_limite = None, f_pagina = None,
                      f_ordenarPor = None, f_orden = None \<rparr>"

definition relojEjemplo :: reloj where
  "relojEjemplo = \<lparr> ahora = 0, nuevoId = ''507f1f77bcf86cd799439012'' \<rparr>"

definition almacenHalo :: almacen where
  "almacenHalo =
     \<lparr> juegos = [juegoDe ''507f1f77bcf86cd799439011'' ''Halo (2001)'' 12 True 0], resenias = [] \<rparr>"

definition datosHalo :: datosJuego where
  "datosHalo = \<lparr> d_nombre = Some ''Halo (2001)'', d_anio = Some 2001, d_genero = Some ''RPG'',
                  d_plataforma = Some ''Xbox'', d_imagen = None, d_resena = None,
                  d_desarrollador = None, d_tienda = None, d_completado = None,
                  d_horasJugadas = None \<rparr>"


definition filtrosPorHoras :: filtros where
  "filtrosPorHoras = filtrosVacios\<lparr>f_ordenarPor := Some ''horasJugadas''\<rparr>"

text \<open>
  A store in which the order of insertion, the order by creation date descending and the
  order by hours descending are three different orders.
\<close>

definition almacenOrden :: almacen where
  "almacenOrden =
     \<lparr> juegos = [juegoDe ''b1'' ''Uno'' 5 False 1000, juegoDe ''b2'' ''Dos'' 10 True 2000,
                  juegoDe ''b3'' ''Tres'' 0 False 3000],
       resenias = [] \<rparr>"

definition fechasConvertibles :: "host \<Rightarrow> juego \<Rightarrow> bool" where
  "fechasConvertibles h j =
     (fechaISO h (JDate (fechaCreacion j)) \<noteq> None \<and> fechaISO h (JDate (fechaActualizacion j)) \<noteq> None)"

text \<open>Requests to create a review of the game with a given identifier.\<close>

definition cuerpoDe :: "string \<Rightarrow> cuerpoResenia" where
  "cuerpoDe i = \<lparr> b_juegoId = JStr i, b_comentario = JStr ''Muy buen juego'',
                  b_puntuacion = JNum 4, b_nombreUsuario = JStr ''Ana'' \<rparr>"

definition datosReseniaDe :: "string \<Rightarrow> datosResenia" where
  "datosReseniaDe i = \<lparr> s_juegoId = JStr i, s_contenido = JStr ''Muy buen juego'',
                        s_calificacion = JNum 4, s_autor = JStr ''Ana'' \<rparr>"

text \<open>A record without the \<^verbatim>\<open>recomendaria\<close> field, as no query of the program builds it.\<close>

definition reseniaEjemplo :: jsval where
  "reseniaEjemplo = JObj [(''_id'', JObjectId ''r1''), (''juegoId'', JObjectId ''j1''),
                          (''puntuacion'', JNum 4), (''textoResena'', JStr ''Muy buen juego'')]"

section \<open>Evaluation of the runtime functions\<close>

lemma trim_igual: "blancoInicial s = 0 \<Longrightarrow> blancoFinal s = 0 \<Longrightarrow> trim s = s"
  by (cases s) (simp_all add: trim_def trimStart_def)

lemma trim_ejemplos:
  "trim ''Halo (2001)'' = ''Halo (2001)''" "trim ''RPG'' = ''RPG''" "trim ''Xbox'' = ''Xbox''"
  "trim ''Muy buen juego'' = ''Muy buen juego''" "trim ''Ana'' = ''Ana''"
  by (rule trim_igual; simp add: blancoInicial_def blancoFinal_def espacios_def)+

lemma trim_vacio: "trim [] = []"
  by (simp add: trim_def trimStart_def)

lemma longitud_ejemplos:
  "longitud ''Halo (2001)'' = 11" "longitud [] = 0" "longitud ''Muy buen juego'' = 14"
  "longitud ''Ana'' = 3"
  by (simp_all add: longitud_def)


lemma doble_exacto: "\<bar>n\<bar> \<le> 2 ^ 53 \<Longrightarrow> doble n = Num n"
  by (simp add: doble_def)







lemma textoISO_definido: "\<bar>ms\<bar> \<le> 8640000000000000 \<Longrightarrow> \<exists>t. textoISO ms = Some t"
  by (simp add: textoISO_def Let_def split: prod.splits)

lemma map_of_asignar:
  "map_of (asignar k v kvs) k' = (if k' = k then Some v else map_of kvs k')"
  by (induction kvs) auto

section \<open>Properties of the field mapper\<close>












subsection \<open>Frontend-bound mapping of malformed records\<close>

lemma mapear_filtrar:
  assumes "\<And>x. \<not> truthy x \<Longrightarrow> f x = Inr JNull"
  shows "ligar (mapear f xs) (\<lambda>ys. Inr (filter truthy ys))
       = ligar (mapear f (filter truthy xs)) (\<lambda>ys. Inr (filter truthy ys))"
proof (induction xs)
  case Nil
  then show ?case by simp
next
  case (Cons x xs)
  show ?case
  proof (cases "truthy x")
    case True
    with Cons show ?thesis
      by (cases "f x"; cases "mapear f xs"; cases "mapear f (filter truthy xs)")
         (auto simp: ligar_def)
  next
    case False
    with assms have "f x = Inr JNull" by simp
    with False Cons show ?thesis
      by (cases "mapear f xs"; cases "mapear f (filter truthy xs)") (auto simp: ligar_def)
  qed
qed

lemma transformarAFrontend_srv_falsy: "\<not> truthy x \<Longrightarrow> transformarAFrontend_srv h x = JNull"
  by (simp add: transformarAFrontend_srv_def)

lemma transformarArrayAFrontend_falsy:
  "transformarArrayAFrontend h (JArr xs) = transformarArrayAFrontend h (JArr (filter truthy xs))"
  using mapear_filtrar[of "transformarAFrontend h" xs]
  by (simp add: transformarArrayAFrontend_def transformarAFrontend_def)

lemma transformarArrayAFrontend_srv_falsy:
  "transformarArrayAFrontend_srv h (JArr xs) = transformarArrayAFrontend_srv h (JArr (filter truthy xs))"
  by (induction xs) (auto simp: transformarArrayAFrontend_srv_def transformarAFrontend_srv_falsy)

text \<open>
  C5 (amended). For every falsy record (\<^verbatim>\<open>undefined\<close>, \<^verbatim>\<open>null\<close>, \<^verbatim>\<open>false\<close>, \<^verbatim>\<open>0\<close>,
  NaN, the empty string) both frontend-bound mappers return \<^verbatim>\<open>null\<close> without raising, and
  both array variants drop such entries: a list maps exactly as the list without its falsy
  entries does, and the canonical array variant never returns a \<^verbatim>\<open>null\<close> entry.
\<close>

theorem C5_registro_falsy:
  "(\<not> truthy b \<longrightarrow> transformarAFrontend h b = Inr JNull \<and> transformarAFrontend_srv h b = JNull)
   \<and> transformarArrayAFrontend h (JArr xs) = transformarArrayAFrontend h (JArr (filter truthy xs))
   \<and> transformarArrayAFrontend_srv h (JArr xs)
       = transformarArrayAFrontend_srv h (JArr (filter truthy xs))
   \<and> JNull \<notin> set (transformarArrayAFrontend_srv h (JArr xs))"
  using transformarArrayAFrontend_falsy[of h xs] transformarArrayAFrontend_srv_falsy[of h xs]
  by (simp add: transformarAFrontend_def transformarAFrontend_srv_falsy
      transformarArrayAFrontend_srv_def)

theorem C5_registro_falsy_witness:
  "\<not> truthy JNull
   \<and> transformarAFrontend hostBasico JNull = Inr JNull
   \<and> transformarAFrontend_srv hostBasico JNull = JNull
   \<and> transformarArrayAFrontend hostBasico (JArr [JNull, JObj [(''_id'', JObjectId ''a1'')]])
       = transformarArrayAFrontend hostBasico (JArr [JObj [(''_id'', JObjectId ''a1'')]])
   \<and> transformarArrayAFrontend_srv hostBasico (JArr [JNull, JObj [(''_id'', JObjectId ''a1'')]])
       = transformarArrayAFrontend_srv hostBasico (JArr [JObj [(''_id'', JObjectId ''a1'')]])"
  using C5_registro_falsy [of JNull hostBasico "[JNull, JObj [(''_id'', JObjectId ''a1'')]]"]
  by simp

text \<open>
  C5 as stated fails on a truthy input that is not an object: on the number 42 the legacy
  mapper raises a TypeError (and so does the array variant on a list holding it), and the
  canonical mapper returns a record filled with defaults instead of \<^verbatim>\<open>null\<close>, which the
  array variant keeps.
\<close>

theorem C5_no_objeto_contraejemplo:
  "transformarAFrontend hostBasico (JNum 42) = Inl TypeError
   \<and> transformarArrayAFrontend hostBasico (JArr [JNum 42, JObj [(''_id'', JObjectId ''a1'')]])
       = Inl TypeError
   \<and> transformarAFrontend_srv hostBasico (JNum 42) \<noteq> JNull
   \<and> length (transformarArrayAFrontend_srv hostBasico
               (JArr [JNum 42, JObj [(''_id'', JObjectId ''a1'')]])) = 2"
  by (simp add: transformarAFrontend_def transformarArrayAFrontend_def ligar_def
      transformarAFrontend_srv_def transformarArrayAFrontend_srv_def atrapar_def identificador_def
      fechaONull_def)

subsection \<open>The recommends flag of stored reviews\<close>

lemma fechaONull_ok:
  "truthy v \<longrightarrow> fechaISO h v \<noteq> None \<Longrightarrow> \<exists>w. fechaONull h v = Inr w"
  by (auto simp: fechaONull_def split: option.splits)

lemma transformarReseniaAFrontend_recomendaria:
  assumes "transformarReseniaAFrontend h b = Inr (JObj ob)"
  shows "map_of ob ''recomendaria'' = Some (JBool (truthy (leer b ''recomendaria'')))"
  using assms
  by (auto simp: transformarReseniaAFrontend_def ligar_def split: if_splits sum.splits)

lemma referenciaJuego_recomendaria:
  "referenciaJuego h j kvs = Inr resultado \<Longrightarrow>
   map_of resultado ''recomendaria'' = map_of kvs ''recomendaria''"
  by (auto simp: referenciaJuego_def ligar_def map_of_asignar split: if_splits sum.splits)

lemma transformarReseniaAFrontend_srv_recomendaria:
  assumes "transformarReseniaAFrontend_srv h b = JObj ob"
  shows "map_of ob ''recomendaria'' = Some (JBool (truthy (leer b ''recomendaria'')))"
proof -
  from assms have t: "truthy b"
    by (auto simp: transformarReseniaAFrontend_srv_def split: if_splits)
  from assms t obtain ident creada actualizada where
    r: "referenciaJuego h (leer b ''juegoId'')
             [(''id'', ident),
              (''juegoId'', JStr ''''),
              (''contenido'', jsOr (jsOr (leer b ''contenido'') (leer b ''textoResena'')) (JStr '''')),
              (''calificacion'',
                 jsOr (aNumero h (jsOr (leer b ''calificacion'') (leer b ''puntuacion''))) (JNum 1)),
              (''autor'', jsOr (leer b ''autor'') (JStr Anonimo)),
              (''dificultad'', jsOr (leer b ''dificultad'') (JStr ''Normal'')),
              (''recomendaria'', JBool (truthy (leer b ''recomendaria''))),
              (''horasJugadas'', jsOr (aNumero h (leer b ''horasJugadas'')) (JNum 0)),
              (''fechaCreacion'', creada),
              (''fechaActualizacion'', actualizada)] = Inr ob"
    by (auto simp: transformarReseniaAFrontend_srv_def atrapar_def ligar_def split: sum.splits)
  from referenciaJuego_recomendaria[OF r] show ?thesis by simp
qed

lemma hidratar_recomendaria:
  "map_of campos ''recomendaria'' = None \<Longrightarrow>
   leer (JObj (hidratar t campos)) ''recomendaria'' = JBool recomendaria_default"
  by (simp add: hidratar_def rutasResenia_def valoresPorDefecto_def)

lemma documentoResenia_campos:
  "leer (documentoResenia t sel s x) ''_id'' = JObjectId (r_id x)"
  "leer (documentoResenia t sel s x) ''juegoId'' = poblar sel s (r_juegoId x)"
  "leer (documentoResenia t sel s x) ''recomendaria'' = leer (JObj (hidratar t (r_campos x))) ''recomendaria''"
  "leer (documentoResenia t sel s x) ''fechaCreacion'' = leer (JObj (hidratar t (r_campos x))) ''fechaCreacion''"
  "leer (documentoResenia t sel s x) ''fechaActualizacion''
     = leer (JObj (hidratar t (r_campos x))) ''fechaActualizacion''"
  by (simp_all add: documentoResenia_def)

lemma poblar_referencia:
  "poblar sel s ref = JNull
   \<or> (\<exists>kvs j. poblar sel s ref = JObj kvs \<and> map_of kvs ''_id'' = Some (JObjectId j))"
  by (simp add: poblar_def camposDe_def documento_def split: option.splits)

lemma referenciaJuego_poblado: "\<exists>resultado. referenciaJuego h (poblar sel s ref) kvs = Inr resultado"
  using poblar_referencia[of sel s ref]
  by (auto simp: referenciaJuego_def ligar_def)

lemma documentoResenia_transformado:
  assumes c: "truthy (leer (JObj (hidratar t (r_campos x))) ''fechaCreacion'')
                \<longrightarrow> fechaISO h (leer (JObj (hidratar t (r_campos x))) ''fechaCreacion'') \<noteq> None"
    and a: "truthy (leer (JObj (hidratar t (r_campos x))) ''fechaActualizacion'')
                \<longrightarrow> fechaISO h (leer (JObj (hidratar t (r_campos x))) ''fechaActualizacion'') \<noteq> None"
  shows "\<exists>ob. transformarReseniaAFrontend_srv h (documentoResenia t sel s x) = JObj ob"
proof -
  let ?d = "documentoResenia t sel s x"
  have t: "truthy ?d" by (simp add: documentoResenia_def)
  from fechaONull_ok[OF c] obtain creada where
    c': "fechaONull h (leer ?d ''fechaCreacion'') = Inr creada"
    by (auto simp: documentoResenia_campos)
  from fechaONull_ok[OF a] obtain actualizada where
    a': "fechaONull h (leer ?d ''fechaActualizacion'') = Inr actualizada"
    by (auto simp: documentoResenia_campos)
  have i: "identificador h ?d = Inr (JStr (r_id x))"
    by (simp add: identificador_def documentoResenia_campos ligar_def)
  from referenciaJuego_poblado obtain resultado where
    "referenciaJuego h (poblar sel s (r_juegoId x))
             [(''id'', JStr (r_id x)),
              (''juegoId'', JStr ''''),
              (''contenido'', jsOr (jsOr (leer ?d ''contenido'') (leer ?d ''textoResena'')) (JStr '''')),
              (''calificacion'',
                 jsOr (aNumero h (jsOr (leer ?d ''calificacion'') (leer ?d ''puntuacion''))) (JNum 1)),
              (''autor'', jsOr (leer ?d ''autor'') (JStr Anonimo)),
              (''dificultad'', jsOr (leer ?d ''dificultad'') (JStr ''Normal'')),
              (''recomendaria'', JBool (truthy (leer ?d ''recomendaria''))),
              (''horasJugadas'', jsOr (aNumero h (leer ?d ''horasJugadas'')) (JNum 0)),
              (''fechaCreacion'', creada),
              (''fechaActualizacion'', actualizada)] = Inr resultado"
    by blast
  with t c' a' i show ?thesis
    by (simp add: transformarReseniaAFrontend_srv_def atrapar_def ligar_def documentoResenia_campos)
qed

lemma lectura_recomendaria:
  assumes ausente: "map_of (r_campos x) ''recomendaria'' = None"
    and c: "truthy (leer (JObj (hidratar t (r_campos x))) ''fechaCreacion'')
                \<longrightarrow> fechaISO h (leer (JObj (hidratar t (r_campos x))) ''fechaCreacion'') \<noteq> None"
    and a: "truthy (leer (JObj (hidratar t (r_campos x))) ''fechaActualizacion'')
                \<longrightarrow> fechaISO h (leer (JObj (hidratar t (r_campos x))) ''fechaActualizacion'') \<noteq> None"
  shows "\<exists>ob. transformarReseniaAFrontend_srv h (documentoResenia t sel s x) = JObj ob
           \<and> map_of ob ''recomendaria'' = Some (JBool True)"
proof -
  from documentoResenia_transformado[OF c a] obtain ob where
    ob: "transformarReseniaAFrontend_srv h (documentoResenia t sel s x) = JObj ob"
    by blast
  from transformarReseniaAFrontend_srv_recomendaria[OF ob] hidratar_recomendaria[OF ausente]
  have "map_of ob ''recomendaria'' = Some (JBool True)"
    by (simp add: documentoResenia_campos recomendaria_default_def)
  with ob show ?thesis by blast
qed

text \<open>
  C10 (amended). For every stored review in which \<^verbatim>\<open>recomendaria\<close> is absent (and whose
  dates, stored or filled in, convert to text), the document that a query hands to the mapper
  carries the default \<^verbatim>\<open>true\<close> of the schema, so the review read through the service or
  through the controller is reported with \<^verbatim>\<open>recomendaria\<close> \<^verbatim>\<open>true\<close>. The two
  frontend-bound review mappers themselves map a record that reaches them without
  \<^verbatim>\<open>recomendaria\<close> to \<^verbatim>\<open>false\<close>.
\<close>

theorem C10_recomendaria_por_defecto:
  assumes encontrada: "findByIdResenia h s v = Inr (Some x)"
    and ausente: "map_of (r_campos x) ''recomendaria'' = None"
    and c: "truthy (leer (JObj (hidratar (ahora r) (r_campos x))) ''fechaCreacion'')
              \<longrightarrow> fechaISO h (leer (JObj (hidratar (ahora r) (r_campos x))) ''fechaCreacion'') \<noteq> None"
    and a: "truthy (leer (JObj (hidratar (ahora r) (r_campos x))) ''fechaActualizacion'')
              \<longrightarrow> fechaISO h (leer (JObj (hidratar (ahora r) (r_campos x))) ''fechaActualizacion'') \<noteq> None"
  shows "leer (documentoResenia (ahora r) sel s x) ''recomendaria'' = JBool recomendaria_default
       \<and> recomendaria_default = True
       \<and> (\<exists>ob. obtenerPorId_resenia h r v s = Inr (JObj ob)
              \<and> map_of ob ''recomendaria'' = Some (JBool True))
       \<and> (\<exists>ob. obtenerReseniaPorId h r v s = Inr (JObj ob)
              \<and> map_of ob ''recomendaria'' = Some (JBool True))
       \<and> (\<forall>b ob. leer b ''recomendaria'' = JUndefined \<and> transformarReseniaAFrontend_srv h b = JObj ob
              \<longrightarrow> map_of ob ''recomendaria'' = Some (JBool False))
       \<and> (\<forall>b ob. leer b ''recomendaria'' = JUndefined \<and> transformarReseniaAFrontend h b = Inr (JObj ob)
              \<longrightarrow> map_of ob ''recomendaria'' = Some (JBool False))"
proof -
  have d: "leer (documentoResenia (ahora r) sel s x) ''recomendaria'' = JBool recomendaria_default"
    using hidratar_recomendaria[OF ausente] by (simp add: documentoResenia_campos)
  have srv: "\<exists>ob. obtenerPorId_resenia h r v s = Inr (JObj ob)
              \<and> map_of ob ''recomendaria'' = Some (JBool True)"
    using lectura_recomendaria[OF ausente c a, of "[''nombre'', ''genero'', ''imagen'']" s] encontrada
    by (simp add: obtenerPorId_resenia_def relanzar_def)
  have ctl: "\<exists>ob. obtenerReseniaPorId h r v s = Inr (JObj ob)
              \<and> map_of ob ''recomendaria'' = Some (JBool True)"
    using lectura_recomendaria[OF ausente c a, of "[''nombre'', ''genero'']" s] encontrada
    by (simp add: obtenerReseniaPorId_def)
  have m1: "\<forall>b ob. leer b ''recomendaria'' = JUndefined \<and> transformarReseniaAFrontend_srv h b = JObj ob
              \<longrightarrow> map_of ob ''recomendaria'' = Some (JBool False)"
    using transformarReseniaAFrontend_srv_recomendaria[of h] by auto
  have m2: "\<forall>b ob. leer b ''recomendaria'' = JUndefined \<and> transformarReseniaAFrontend h b = Inr (JObj ob)
              \<longrightarrow> map_of ob ''recomendaria'' = Some (JBool False)"
    using transformarReseniaAFrontend_recomendaria[of h] by auto
  from d srv ctl m1 m2 show ?thesis by (simp add: recomendaria_default_def)
qed

lemma resenia_ejemplo:
  "findByIdResenia hostBasico almacenEjemplo (JObjectId ''r1'')
     = Inr (Some \<lparr> r_id = ''r1'', r_juegoId = ''a2'', r_campos = [(''calificacion'', JNum 4)] \<rparr>)"
  by (simp add: findByIdResenia_def hostBasico_def almacenEjemplo_def)

lemma fechas_ejemplo:
  "leer (JObj (hidratar 0 [(''calificacion'', JNum 4)])) ''fechaCreacion'' = JDate 0"
  "leer (JObj (hidratar 0 [(''calificacion'', JNum 4)])) ''fechaActualizacion'' = JDate 0"
  "fechaISO hostBasico (JDate 0) \<noteq> None"
  using textoISO_definido[of 0]
  by (auto simp: hidratar_def rutasResenia_def valoresPorDefecto_def hostBasico_def)

lemma mapeo_ejemplo:
  "\<exists>ob. transformarReseniaAFrontend_srv hostBasico reseniaEjemplo = JObj ob"
  "\<exists>ob. transformarReseniaAFrontend hostBasico reseniaEjemplo = Inr (JObj ob)"
  by (simp_all add: reseniaEjemplo_def transformarReseniaAFrontend_srv_def
      transformarReseniaAFrontend_def ligar_def atrapar_def identificador_def referenciaJuego_def
      fechaONull_def)

theorem C10_recomendaria_por_defecto_witness:
  "findByIdResenia hostBasico almacenEjemplo (JObjectId ''r1'')
     = Inr (Some \<lparr> r_id = ''r1'', r_juegoId = ''a2'', r_campos = [(''calificacion'', JNum 4)] \<rparr>)
   \<and> map_of [(''calificacion'', JNum 4)] ''recomendaria'' = None
   \<and> fechaISO hostBasico (JDate (ahora relojEjemplo)) \<noteq> None
   \<and> (\<exists>ob. obtenerPorId_resenia hostBasico relojEjemplo (JObjectId ''r1'') almacenEjemplo = Inr (JObj ob)
          \<and> map_of ob ''recomendaria'' = Some (JBool True))
   \<and> (\<exists>ob. obtenerReseniaPorId hostBasico relojEjemplo (JObjectId ''r1'') almacenEjemplo = Inr (JObj ob)
          \<and> map_of ob ''recomendaria'' = Some (JBool True))
   \<and> leer reseniaEjemplo ''recomendaria'' = JUndefined
   \<and> (\<exists>ob. transformarReseniaAFrontend_srv hostBasico reseniaEjemplo = JObj ob
          \<and> map_of ob ''recomendaria'' = Some (JBool False))
   \<and> (\<exists>ob. transformarReseniaAFrontend hostBasico reseniaEjemplo = Inr (JObj ob)
          \<and> map_of ob ''recomendaria'' = Some (JBool False))"
proof -
  have t: "ahora relojEjemplo = 0" by (simp add: relojEjemplo_def)
  have u: "leer reseniaEjemplo ''recomendaria'' = JUndefined" by (simp add: reseniaEjemplo_def)
  note w = C10_recomendaria_por_defecto [of hostBasico almacenEjemplo "JObjectId ''r1''"
      "\<lparr> r_id = ''r1'', r_juegoId = ''a2'', r_campos = [(''calificacion'', JNum 4)] \<rparr>" relojEjemplo]
  have "(\<exists>ob. obtenerPorId_resenia hostBasico relojEjemplo (JObjectId ''r1'') almacenEjemplo = Inr (JObj ob)
          \<and> map_of ob ''recomendaria'' = Some (JBool True))
   \<and> (\<exists>ob. obtenerReseniaPorId hostBasico relojEjemplo (JObjectId ''r1'') almacenEjemplo = Inr (JObj ob)
          \<and> map_of ob ''recomendaria'' = Some (JBool True))
   \<and> (\<forall>b ob. leer b ''recomendaria'' = JUndefined \<and> transformarReseniaAFrontend_srv hostBasico b = JObj ob
              \<longrightarrow> map_of ob ''recomendaria'' = Some (JBool False))
   \<and> (\<forall>b ob. leer b ''recomendaria'' = JUndefined \<and> transformarReseniaAFrontend hostBasico b = Inr (JObj ob)
              \<longrightarrow> map_of ob ''recomendaria'' = Some (JBool False))"
    using w resenia_ejemplo fechas_ejemplo by (simp add: t)
  with u mapeo_ejemplo resenia_ejemplo fechas_ejemplo(3) show ?thesis
    by (simp add: t) blast
qed

text \<open>
  C10 as stated fails on the stored review \<^verbatim>\<open>r1\<close> of the example store, which has no
  \<^verbatim>\<open>recomendaria\<close>: read through the service or through the controller it is reported with
  \<^verbatim>\<open>recomendaria\<close> \<^verbatim>\<open>true\<close>, not \<^verbatim>\<open>false\<close>.
\<close>

theorem C10_lectura_contraejemplo:
  "map (\<lambda>x. (r_id x, map_of (r_campos x) ''recomendaria'')) (resenias almacenEjemplo) = [(''r1'', None)]
   \<and> map_sum id (\<lambda>v. leer v ''recomendaria'')
        (obtenerPorId_resenia hostBasico relojEjemplo (JObjectId ''r1'') almacenEjemplo)
       = Inr (JBool True)
   \<and> map_sum id (\<lambda>v. leer v ''recomendaria'')
        (obtenerReseniaPorId hostBasico relojEjemplo (JObjectId ''r1'') almacenEjemplo)
       = Inr (JBool True)"
proof -
  let ?x = "\<lparr> r_id = ''r1'', r_juegoId = ''a2'', r_campos = [(''calificacion'', JNum 4)] \<rparr>"
  have t: "ahora relojEjemplo = 0" by (simp add: relojEjemplo_def)
  have ausente: "map_of (r_campos ?x) ''recomendaria'' = None" by simp
  have c: "truthy (leer (JObj (hidratar 0 (r_campos ?x))) ''fechaCreacion'')
             \<longrightarrow> fechaISO hostBasico (leer (JObj (hidratar 0 (r_campos ?x))) ''fechaCreacion'') \<noteq> None"
    using fechas_ejemplo by simp
  have a: "truthy (leer (JObj (hidratar 0 (r_campos ?x))) ''fechaActualizacion'')
             \<longrightarrow> fechaISO hostBasico (leer (JObj (hidratar 0 (r_campos ?x))) ''fechaActualizacion'') \<noteq> None"
    using fechas_ejemplo by simp
  have r: "map (\<lambda>x. (r_id x, map_of (r_campos x) ''recomendaria'')) (resenias almacenEjemplo) = [(''r1'', None)]"
    by (simp add: almacenEjemplo_def)
  from lectura_recomendaria[OF ausente c a, of "[''nombre'', ''genero'', ''imagen'']" almacenEjemplo]
  have srv: "map_sum id (\<lambda>v. leer v ''recomendaria'')
        (obtenerPorId_resenia hostBasico relojEjemplo (JObjectId ''r1'') almacenEjemplo)
       = Inr (JBool True)"
    using resenia_ejemplo by (auto simp: obtenerPorId_resenia_def relanzar_def t)
  from lectura_recomendaria[OF ausente c a, of "[''nombre'', ''genero'']" almacenEjemplo]
  have ctl: "map_sum id (\<lambda>v. leer v ''recomendaria'')
        (obtenerReseniaPorId hostBasico relojEjemplo (JObjectId ''r1'') almacenEjemplo)
       = Inr (JBool True)"
    using resenia_ejemplo by (auto simp: obtenerReseniaPorId_def t)
  from r srv ctl show ?thesis by simp
qed

section \<open>Properties of the aggregation engine\<close>








subsection \<open>Ranking by hours\<close>

lemma mset_insertar: "mset (insertar le x xs) = add_mset x (mset xs)"
  by (induction xs) auto

lemma mset_ordenar: "mset (ordenar le xs) = mset xs"
  by (induction xs) (auto simp: ordenar_def mset_insertar)

lemma set_insertar: "set (insertar le x xs) = insert x (set xs)"
  by (induction xs) auto

lemma sorted_insertar:
  assumes tot: "\<And>a b. le a b \<or> le b a" and tr: "\<And>a b c. le a b \<Longrightarrow> le b c \<Longrightarrow> le a c"
  shows "sorted_wrt le xs \<Longrightarrow> sorted_wrt le (insertar le x xs)"
proof (induction xs)
  case Nil
  then show ?case by simp
next
  case (Cons y ys)
  show ?case
  proof (cases "le x y")
    case True
    with Cons.prems tr show ?thesis by auto
  next
    case False
    with tot have "le y x" by blast
    with Cons False show ?thesis by (auto simp: set_insertar)
  qed
qed

lemma sorted_ordenar:
  assumes tot: "\<And>a b. le a b \<or> le b a" and tr: "\<And>a b c. le a b \<Longrightarrow> le b c \<Longrightarrow> le a c"
  shows "sorted_wrt le (ordenar le xs)"
proof (induction xs)
  case Nil
  then show ?case by (simp add: ordenar_def)
next
  case (Cons x xs)
  have "ordenar le (x # xs) = insertar le x (ordenar le xs)" by (simp add: ordenar_def)
  with Cons sorted_insertar[of le, OF tot tr] show ?case by simp
qed

lemma sortPor_horas_desc:
  "sorted_wrt (\<lambda>a b. horasJugadas b \<le> horasJugadas a) (sortPor ''horasJugadas'' False js)"
proof -
  have eq: "sortPor ''horasJugadas'' False js = ordenar (\<lambda>a b. horasJugadas b \<le> horasJugadas a) js"
    by (simp add: sortPor_def campoJuego_def c_anio_def)
  show ?thesis unfolding eq by (rule sorted_ordenar) auto
qed

lemma mset_sortPor: "mset (sortPor c asc js) = mset js"
  by (simp add: sortPor_def mset_ordenar)

text \<open>
  C8 (amended). For a ranking size N of at least one, the ranking is the list of the games
  whose hours are strictly greater than zero, ordered by hours descending, cut to its first N
  entries (the fields selected): with hours 0, 5 and 10 and N = 2 it is the 10-hour game, then
  the 5-hour game.
\<close>

theorem C8_mas_jugados:
  assumes "0 < n"
  shows "\<exists>ordenados.
           mset ordenados = mset (filter (\<lambda>j. 0 < horasJugadas j) (juegos s))
         \<and> sorted_wrt (\<lambda>a b. horasJugadas b \<le> horasJugadas a) ordenados
         \<and> obtenerJuegosMasJugados n s = map seleccionar (take (nat n) ordenados)"
proof -
  let ?o = "sortPor ''horasJugadas'' False (filter (\<lambda>j. 0 < horasJugadas j) (juegos s))"
  have "obtenerJuegosMasJugados n s = map seleccionar (take (nat n) ?o)"
    using assms by (simp add: obtenerJuegosMasJugados_def limitar_def)
  with mset_sortPor sortPor_horas_desc show ?thesis by blast
qed

lemma mas_jugados_ejemplo:
  "map m_id (obtenerJuegosMasJugados 2 almacenEjemplo) = [''a3'', ''a2'']
   \<and> map m_horasJugadas (obtenerJuegosMasJugados 2 almacenEjemplo) = [10, 5]"
  by (simp add: obtenerJuegosMasJugados_def almacenEjemplo_def juegoDe_def limitar_def sortPor_def
      ordenar_def campoJuego_def c_anio_def seleccionar_def)

theorem C8_mas_jugados_witness:
  "(0::int) < 2
   \<and> (\<exists>ordenados.
           mset ordenados = mset (filter (\<lambda>j. 0 < horasJugadas j) (juegos almacenEjemplo))
         \<and> sorted_wrt (\<lambda>a b. horasJugadas b \<le> horasJugadas a) ordenados
         \<and> obtenerJuegosMasJugados 2 almacenEjemplo = map seleccionar (take (nat 2) ordenados))
   \<and> map m_id (obtenerJuegosMasJugados 2 almacenEjemplo) = [''a3'', ''a2'']
   \<and> map m_horasJugadas (obtenerJuegosMasJugados 2 almacenEjemplo) = [10, 5]"
  using C8_mas_jugados [of 2 almacenEjemplo] mas_jugados_ejemplo by simp

text \<open>
  C8 as stated fails at N = 0: the store reads a limit of zero as no limit, so the ranking of
  the example store holds both games with hours instead of none.
\<close>

theorem C8_limite_cero_contraejemplo:
  "map m_horasJugadas (map seleccionar (juegos almacenEjemplo)) = [0, 5, 10]
   \<and> map m_id (obtenerJuegosMasJugados 0 almacenEjemplo) = [''a3'', ''a2'']
   \<and> length (obtenerJuegosMasJugados 0 almacenEjemplo) = 2"
  by (simp add: obtenerJuegosMasJugados_def almacenEjemplo_def juegoDe_def limitar_def sortPor_def
      ordenar_def campoJuego_def c_anio_def seleccionar_def)

subsection \<open>Deleting a game\<close>

lemma mset_quitarPrimero:
  "find p xs = Some x \<Longrightarrow> add_mset x (mset (quitarPrimero p xs)) = mset xs"
  by (induction xs) (auto split: if_splits)

lemma find_Some_D: "find p xs = Some x \<Longrightarrow> x \<in> set xs \<and> p x"
  by (induction xs) (auto split: if_splits)

lemma findByIdAndDeleteJuego_resenias:
  "resenias (snd (findByIdAndDeleteJuego h v s)) = resenias s"
  by (simp add: findByIdAndDeleteJuego_def split: sum.splits option.splits)

lemma eliminar_almacen: "snd (eliminar h v s) = snd (findByIdAndDeleteJuego h v s)"
  by (cases "findByIdAndDeleteJuego h v s") (auto simp: eliminar_def split: sum.splits option.splits)

lemma eliminarJuego_almacen: "snd (eliminarJuego h v s) = snd (findByIdAndDeleteJuego h v s)"
  by (cases "findByIdAndDeleteJuego h v s") (auto simp: eliminarJuego_def split: sum.splits option.splits)

text \<open>
  C9. Deleting a game, through the service or the controller, leaves the review collection as
  it was: every review, also one that refers to the deleted game, is found by its identifier as
  before. When the delete fails the store is unchanged; when it succeeds exactly the game with
  that identifier has left the games collection.
\<close>

theorem C9_eliminar_sin_cascada:
  "resenias (snd (eliminar h v s)) = resenias s
   \<and> resenias (snd (eliminarJuego h v s)) = resenias s
   \<and> (\<forall>rid. findByIdResenia h (snd (eliminar h v s)) rid = findByIdResenia h s rid)
   \<and> (\<forall>rid. findByIdResenia h (snd (eliminarJuego h v s)) rid = findByIdResenia h s rid)
   \<and> snd (eliminarJuego h v s) = snd (eliminar h v s)
   \<and> (case fst (eliminar h v s) of
        Inl e \<Rightarrow> snd (eliminar h v s) = s
      | Inr (i, n) \<Rightarrow>
          casteaObjectId h v = Some i
          \<and> (\<exists>j. j \<in> set (juegos s) \<and> j_id j = i \<and> nombre j = n
                 \<and> add_mset j (mset (juegos (snd (eliminar h v s)))) = mset (juegos s)))"
proof -
  have a: "resenias (snd (eliminar h v s)) = resenias s"
    by (simp add: eliminar_almacen findByIdAndDeleteJuego_resenias)
  have b: "snd (eliminarJuego h v s) = snd (eliminar h v s)"
    by (simp add: eliminar_almacen eliminarJuego_almacen)
  have c: "case fst (eliminar h v s) of
        Inl e \<Rightarrow> snd (eliminar h v s) = s
      | Inr (i, n) \<Rightarrow>
          casteaObjectId h v = Some i
          \<and> (\<exists>j. j \<in> set (juegos s) \<and> j_id j = i \<and> nombre j = n
                 \<and> add_mset j (mset (juegos (snd (eliminar h v s)))) = mset (juegos s))"
  proof (cases "casteaObjectId h v")
    case None
    then show ?thesis
      by (simp add: eliminar_def findByIdAndDeleteJuego_def findByIdJuego_def relanzar_def)
  next
    case (Some i)
    show ?thesis
    proof (cases "find (\<lambda>j. j_id j = i) (juegos s)")
      case None
      with Some show ?thesis
        by (simp add: eliminar_def findByIdAndDeleteJuego_def findByIdJuego_def relanzar_def)
    next
      case (Some j)
      from find_Some_D[OF Some] have j: "j \<in> set (juegos s)" "j_id j = i" by auto
      from mset_quitarPrimero[OF Some] j
      have m: "add_mset j (mset (quitarPrimero (\<lambda>x. j_id x = j_id j) (juegos s))) = mset (juegos s)"
        by simp
      from Some \<open>casteaObjectId h v = Some i\<close> j m show ?thesis
        by (auto simp: eliminar_def findByIdAndDeleteJuego_def findByIdJuego_def relanzar_def)
    qed
  qed
  have d: "\<forall>rid. findByIdResenia h (snd (eliminar h v s)) rid = findByIdResenia h s rid"
    by (simp add: findByIdResenia_def a split: option.splits)
  from a b c d show ?thesis by simp
qed

lemma eliminar_ejemplo:
  "eliminar hostBasico (JObjectId ''a2'') almacenEjemplo
     = (Inr (''a2'', ''Dos''),
        \<lparr> juegos = [juegoDe ''a1'' ''Uno'' 0 False 1000, juegoDe ''a3'' ''Tres'' 10 False 3000],
          resenias = [\<lparr> r_id = ''r1'', r_juegoId = ''a2'', r_campos = [(''calificacion'', JNum 4)] \<rparr>] \<rparr>)"
  by (simp add: eliminar_def findByIdAndDeleteJuego_def findByIdJuego_def hostBasico_def
      almacenEjemplo_def juegoDe_def relanzar_def)

theorem C9_eliminar_sin_cascada_witness:
  "fst (eliminar hostBasico (JObjectId ''a2'') almacenEjemplo) = Inr (''a2'', ''Dos'')
   \<and> map j_id (juegos (snd (eliminar hostBasico (JObjectId ''a2'') almacenEjemplo))) = [''a1'', ''a3'']
   \<and> resenias (snd (eliminar hostBasico (JObjectId ''a2'') almacenEjemplo)) = resenias almacenEjemplo
   \<and> findByIdResenia hostBasico (snd (eliminar hostBasico (JObjectId ''a2'') almacenEjemplo)) (JObjectId ''r1'')
       = findByIdResenia hostBasico almacenEjemplo (JObjectId ''r1'')"
proof -
  note t = C9_eliminar_sin_cascada [of hostBasico "JObjectId ''a2''" almacenEjemplo]
  from t have a: "resenias (snd (eliminar hostBasico (JObjectId ''a2'') almacenEjemplo)) = resenias almacenEjemplo"
    by (rule conjunct1)
  from t have b: "\<forall>rid. findByIdResenia hostBasico (snd (eliminar hostBasico (JObjectId ''a2'') almacenEjemplo)) rid
                      = findByIdResenia hostBasico almacenEjemplo rid"
    by blast
  have c: "fst (eliminar hostBasico (JObjectId ''a2'') almacenEjemplo) = Inr (''a2'', ''Dos'')"
    by (simp add: eliminar_ejemplo)
  have d: "map j_id (juegos (snd (eliminar hostBasico (JObjectId ''a2'') almacenEjemplo))) = [''a1'', ''a3'']"
    by (simp add: eliminar_ejemplo juegoDe_def)
  from a b c d show ?thesis by blast
qed

section \<open>Properties of the listing and of the creation of games\<close>

subsection \<open>Pagination\<close>

lemma skip_exacto:
  assumes "1 \<le> P" "1 \<le> L" "(P - 1) * L \<le> 2 ^ 53"
  shows "por (menos (Num P) 1) (Num L) = Num ((P - 1) * L)"
proof -
  have p0: "0 \<le> P - 1" using assms by simp
  have "(P - 1) * 1 \<le> (P - 1) * L" using assms(2) p0 by (rule mult_left_mono)
  with assms(3) have p1: "P - 1 \<le> 2 ^ 53" by simp
  have m: "menos (Num P) 1 = Num (P - 1)"
    using p0 p1 by (simp add: menos_def doble_exacto)
  have "0 \<le> (P - 1) * L" using p0 assms(2) by simp
  with assms(3) have "\<bar>(P - 1) * L\<bar> \<le> 2 ^ 53" by simp
  then show ?thesis by (simp add: m por_def doble_exacto)
qed




lemma obtenerTodos_pagina:
  assumes q: "construirQuery h f = Inr q"
    and P: "conDefecto 1 (f_pagina f) = Num P" "1 \<le> P"
    and L: "conDefecto 100 (f_limite f) = Num L" "1 \<le> L" "L < 2 ^ 63"
    and PL: "(P - 1) * L \<le> 2 ^ 53"
  shows "obtenerTodos h f s =
     Inr \<lparr> l_juegos = transformarArrayAFrontend_srv h (JArr (map documento
                (take (nat L) (drop (nat ((P - 1) * L))
                   (sortPor (case f_ordenarPor f of None \<Rightarrow> ''fechaCreacion'' | Some c \<Rightarrow> c)
                            (f_orden f = Some ''asc'') (filter q (juegos s))))))),
           paginaActual = Num P,
           totalPaginas = Num \<lceil>(of_nat (length (filter q (juegos s))) :: rat) / of_int L\<rceil>,
           totalJuegos = length (filter q (juegos s)),
           juegosPorPagina = Num L \<rparr>"
proof -
  have "0 \<le> (P - 1) * L" using P L by simp
  then have nn: "\<not> (P - 1) * L < 0" by simp
  have k: "\<not> 9223372036854775808 \<le> (P - 1) * L" using PL by simp
  have l: "\<not> 2 ^ 63 \<le> \<bar>L\<bar>" using L by simp
  note sk = skip_exacto[OF P(2) L(2) PL]
  show ?thesis
    using q P L
    by (simp add: obtenerTodos_def relanzar_def ligar_def Let_def paginar_def saltar_def
        limitarA_def limitar_def totalDePaginas_def sk nn k l)
qed


lemma construirQuery_vacio: "construirQuery h filtrosVacios = Inr (\<lambda>j. True)"
  by (simp add: construirQuery_def filtrosVacios_def condicionRegex_def condicionAnio_def dado_def
      ligar_def)

lemma construirQuery_sin_criterios:
  "construirQuery h (filtrosVacios\<lparr>f_limite := l, f_pagina := p, f_ordenarPor := c, f_orden := d\<rparr>)
     = Inr (\<lambda>j. True)"
  by (simp add: construirQuery_def filtrosVacios_def condicionRegex_def condicionAnio_def dado_def
      ligar_def)


subsection \<open>Documents through the mapper\<close>

lemma transformarAFrontend_srv_documento:
  assumes "fechaISO h (JDate (fechaCreacion j)) = Some c"
    and "fechaISO h (JDate (fechaActualizacion j)) = Some a"
  shows "\<exists>ob. transformarAFrontend_srv h (documento j) = JObj ob
           \<and> map_of ob ''id'' = Some (JStr (j_id j))
           \<and> map_of ob ''nombre'' = Some (JStr (nombre j))"
  using assms
  by (simp add: transformarAFrontend_srv_def documento_def ligar_def atrapar_def identificador_def
      fechaONull_def c_anio_def c_anioLanzamiento_def jsOr_def)

lemma transformarArrayAFrontend_srv_ids:
  "list_all (fechasConvertibles h) js \<Longrightarrow>
   map (\<lambda>v. leer v ''id'') (transformarArrayAFrontend_srv h (JArr (map documento js)))
     = map (\<lambda>j. JStr (j_id j)) js"
proof (induction js)
  case Nil
  then show ?case by (simp add: transformarArrayAFrontend_srv_def)
next
  case (Cons j js)
  from Cons.prems obtain c a where
    "fechaISO h (JDate (fechaCreacion j)) = Some c" "fechaISO h (JDate (fechaActualizacion j)) = Some a"
    by (auto simp: fechasConvertibles_def)
  from transformarAFrontend_srv_documento[OF this] obtain ob where
    ob: "transformarAFrontend_srv h (documento j) = JObj ob" "map_of ob ''id'' = Some (JStr (j_id j))"
    by blast
  from Cons ob show ?case by (simp add: transformarArrayAFrontend_srv_def)
qed

lemma fechasConvertibles_basico:
  "\<bar>t\<bar> \<le> 8640000000000000 \<Longrightarrow> fechasConvertibles hostBasico (juegoDe i n hrs c t)"
  using textoISO_definido[of t]
  by (auto simp: fechasConvertibles_def hostBasico_def juegoDe_def)

lemma fechasConvertibles_ejemplo: "list_all (fechasConvertibles hostBasico) (juegos almacenEjemplo)"
  by (simp add: almacenEjemplo_def fechasConvertibles_basico)

lemma list_all_take_drop: "list_all p xs \<Longrightarrow> list_all p (take n (drop k xs))"
  by (auto simp: list_all_iff dest: in_set_takeD in_set_dropD)

lemma set_sortPor: "set (sortPor c asc js) = set js"
  by (induction js) (auto simp: sortPor_def ordenar_def set_insertar)

lemma list_all_sortPor: "list_all p js \<Longrightarrow> list_all p (sortPor c asc js)"
  by (simp add: list_all_iff set_sortPor)



subsection \<open>Sorting\<close>

lemma obtenerTodosLosJuegos_fuera_de_lista:
  assumes "f_ordenarPor f = Some c" "c \<notin> set ordenamientoValido"
  shows "obtenerTodosLosJuegos h f s =
     ligar (construirFiltro h f) (\<lambda>filtro.
       ligar (if limiteAplicable h (f_limite f)
              then limitarA (parseInt (the (f_limite f))) (filter filtro (juegos s))
              else Inr (filter filtro (juegos s))) (\<lambda>encontrados.
       Inr (transformarArrayAFrontend_srv h (JArr (map documento encontrados)))))"
  using assms by (simp add: obtenerTodosLosJuegos_def Let_def cong: if_cong option.case_cong)

lemma obtenerTodosLosJuegos_en_lista:
  assumes "(case f_ordenarPor f of None \<Rightarrow> ''fechaCreacion'' | Some c \<Rightarrow> c) = c"
    and "c \<in> set ordenamientoValido"
  shows "obtenerTodosLosJuegos h f s =
     ligar (construirFiltro h f) (\<lambda>filtro.
       ligar (if limiteAplicable h (f_limite f)
              then limitarA (parseInt (the (f_limite f)))
                     (sortPor c (f_orden f = Some ''asc'') (filter filtro (juegos s)))
              else Inr (sortPor c (f_orden f = Some ''asc'') (filter filtro (juegos s)))) (\<lambda>encontrados.
       Inr (transformarArrayAFrontend_srv h (JArr (map documento encontrados)))))"
  using assms by (simp add: obtenerTodosLosJuegos_def Let_def cong: if_cong option.case_cong)

lemma almacenOrden_campos:
  "juegos almacenOrden = [juegoDe ''b1'' ''Uno'' 5 False 1000, juegoDe ''b2'' ''Dos'' 10 True 2000,
                          juegoDe ''b3'' ''Tres'' 0 False 3000]"
  by (simp add: almacenOrden_def)

lemma fechasConvertibles_orden: "list_all (fechasConvertibles hostBasico) (juegos almacenOrden)"
  by (simp add: almacenOrden_campos fechasConvertibles_basico)

lemma ordenes_ejemplo:
  "map j_id (juegos almacenOrden) = [''b1'', ''b2'', ''b3'']"
  "map j_id (sortPor ''fechaCreacion'' False (juegos almacenOrden)) = [''b3'', ''b2'', ''b1'']"
  "map j_id (sortPor ''horasJugadas'' False (juegos almacenOrden)) = [''b2'', ''b1'', ''b3'']"
  by (simp_all add: sortPor_def ordenar_def campoJuego_def almacenOrden_campos juegoDe_def c_anio_def)

lemma obtenerTodos_ids:
  assumes f: "f_pagina f = None" "f_limite f = None" "f_orden f = None"
    and q: "construirQuery hostBasico f = Inr (\<lambda>j. True)"
  shows "map_sum id (\<lambda>l. map (\<lambda>v. leer v ''id'') (l_juegos l)) (obtenerTodos hostBasico f almacenOrden)
       = Inr (map JStr (map j_id
            (sortPor (case f_ordenarPor f of None \<Rightarrow> ''fechaCreacion'' | Some c \<Rightarrow> c) False
               (juegos almacenOrden))))"
proof -
  let ?o = "sortPor (case f_ordenarPor f of None \<Rightarrow> ''fechaCreacion'' | Some c \<Rightarrow> c) False
              (juegos almacenOrden)"
  have "obtenerTodos hostBasico f almacenOrden =
     Inr \<lparr> l_juegos = transformarArrayAFrontend_srv hostBasico (JArr (map documento
                (take (nat 100) (drop (nat ((1 - 1) * 100))
                   (sortPor (case f_ordenarPor f of None \<Rightarrow> ''fechaCreacion'' | Some c \<Rightarrow> c)
                            (f_orden f = Some ''asc'')
                            (filter (\<lambda>j. True) (juegos almacenOrden))))))),
           paginaActual = Num 1,
           totalPaginas = Num \<lceil>(of_nat (length (filter (\<lambda>j. True) (juegos almacenOrden))) :: rat) / of_int 100\<rceil>,
           totalJuegos = length (filter (\<lambda>j. True) (juegos almacenOrden)),
           juegosPorPagina = Num 100 \<rparr>"
    by (rule obtenerTodos_pagina[OF q]) (simp_all add: f conDefecto_def)
  moreover have "length ?o = 3"
    by (simp add: sortPor_def ordenar_def almacenOrden_campos flip: mset_eq_length[OF mset_ordenar])
  then have "take (nat 100) (drop (nat ((1 - 1) * 100)) ?o) = ?o" by simp
  moreover have "map (\<lambda>v. leer v ''id'') (transformarArrayAFrontend_srv hostBasico (JArr (map documento ?o)))
          = map (\<lambda>j. JStr (j_id j)) ?o"
    by (rule transformarArrayAFrontend_srv_ids) (simp add: list_all_sortPor fechasConvertibles_orden)
  moreover have "map (\<lambda>j. JStr (j_id j)) ?o = map JStr (map j_id ?o)" by simp
  ultimately show ?thesis by (simp add: f)
qed

text \<open>
  C7. The listing service applies the caller's sort field as given. In a store whose order of
  insertion, order by creation date and order by hours all differ, the service asked to sort
  by \<^verbatim>\<open>horasJugadas\<close>, a field outside the list of sortable fields, returns the games by
  hours descending, which is neither the default order nor the order of the collection; the
  controller's own listing checks the list and leaves the order of the collection. Without a
  sort field both return the games by creation date descending.
\<close>

theorem C7_orden_fuera_de_lista:
  "''horasJugadas'' \<notin> set ordenamientoValido
   \<and> map j_id (juegos almacenOrden) = [''b1'', ''b2'', ''b3'']
   \<and> map fechaCreacion (juegos almacenOrden) = [1000, 2000, 3000]
   \<and> map horasJugadas (juegos almacenOrden) = [5, 10, 0]
   \<and> map_sum id (\<lambda>l. map (\<lambda>v. leer v ''id'') (l_juegos l))
        (obtenerTodos hostBasico filtrosVacios almacenOrden)
       = Inr [JStr ''b3'', JStr ''b2'', JStr ''b1'']
   \<and> map_sum id (\<lambda>l. map (\<lambda>v. leer v ''id'') (l_juegos l))
        (obtenerTodos hostBasico filtrosPorHoras almacenOrden)
       = Inr [JStr ''b2'', JStr ''b1'', JStr ''b3'']
   \<and> map_sum id (map (\<lambda>v. leer v ''id''))
        (obtenerTodosLosJuegos hostBasico filtrosVacios almacenOrden)
       = Inr [JStr ''b3'', JStr ''b2'', JStr ''b1'']
   \<and> map_sum id (map (\<lambda>v. leer v ''id''))
        (obtenerTodosLosJuegos hostBasico filtrosPorHoras almacenOrden)
       = Inr [JStr ''b1'', JStr ''b2'', JStr ''b3'']"
proof -
  have fuera: "''horasJugadas'' \<notin> set ordenamientoValido"
    by (simp add: ordenamientoValido_def c_anio_def)
  have dentro: "''fechaCreacion'' \<in> set ordenamientoValido"
    by (simp add: ordenamientoValido_def)
  have datos: "map fechaCreacion (juegos almacenOrden) = [1000, 2000, 3000]"
    "map horasJugadas (juegos almacenOrden) = [5, 10, 0]"
    by (simp_all add: almacenOrden_campos juegoDe_def)
  have q: "construirQuery hostBasico filtrosPorHoras = Inr (\<lambda>j. True)"
    by (simp add: filtrosPorHoras_def construirQuery_def filtrosVacios_def condicionRegex_def
        condicionAnio_def dado_def ligar_def)
  have f: "f_pagina filtrosPorHoras = None" "f_limite filtrosPorHoras = None"
    "f_ordenarPor filtrosPorHoras = Some ''horasJugadas''" "f_orden filtrosPorHoras = None"
    by (simp_all add: filtrosPorHoras_def filtrosVacios_def)
  have v: "f_pagina filtrosVacios = None" "f_limite filtrosVacios = None"
    "f_ordenarPor filtrosVacios = None" "f_orden filtrosVacios = None"
    by (simp_all add: filtrosVacios_def)
  have srv0: "map_sum id (\<lambda>l. map (\<lambda>v. leer v ''id'') (l_juegos l))
        (obtenerTodos hostBasico filtrosVacios almacenOrden)
       = Inr [JStr ''b3'', JStr ''b2'', JStr ''b1'']"
    using obtenerTodos_ids[OF v(1) v(2) v(4) construirQuery_vacio]
    by (simp add: v ordenes_ejemplo)
  have srv: "map_sum id (\<lambda>l. map (\<lambda>v. leer v ''id'') (l_juegos l))
        (obtenerTodos hostBasico filtrosPorHoras almacenOrden)
       = Inr [JStr ''b2'', JStr ''b1'', JStr ''b3'']"
    using obtenerTodos_ids[OF f(1) f(2) f(4) q]
    by (simp add: f ordenes_ejemplo)
  have qc: "construirFiltro hostBasico filtrosPorHoras = Inr (\<lambda>j. True)"
    "construirFiltro hostBasico filtrosVacios = Inr (\<lambda>j. True)"
    by (simp_all add: filtrosPorHoras_def construirFiltro_def filtrosVacios_def condicionRegex_def
        dado_def ligar_def)
  have la: "\<not> limiteAplicable hostBasico (f_limite filtrosPorHoras)"
    "\<not> limiteAplicable hostBasico (f_limite filtrosVacios)"
    by (simp_all add: f v limiteAplicable_def dado_def)
  have ids: "map (\<lambda>v. leer v ''id'') (transformarArrayAFrontend_srv hostBasico (JArr (map documento js)))
          = map JStr (map j_id js)" if "set js = set (juegos almacenOrden)" for js
  proof -
    from that fechasConvertibles_orden have "list_all (fechasConvertibles hostBasico) js"
      by (simp add: list_all_iff)
    from transformarArrayAFrontend_srv_ids[OF this] show ?thesis by simp
  qed
  have ctl: "map_sum id (map (\<lambda>v. leer v ''id''))
        (obtenerTodosLosJuegos hostBasico filtrosPorHoras almacenOrden)
       = Inr [JStr ''b1'', JStr ''b2'', JStr ''b3'']"
    using obtenerTodosLosJuegos_fuera_de_lista[OF f(3) fuera, of hostBasico almacenOrden] qc la
      ids[of "juegos almacenOrden"]
    by (simp add: ligar_def ordenes_ejemplo)
  have ctl0: "map_sum id (map (\<lambda>v. leer v ''id''))
        (obtenerTodosLosJuegos hostBasico filtrosVacios almacenOrden)
       = Inr [JStr ''b3'', JStr ''b2'', JStr ''b1'']"
    using obtenerTodosLosJuegos_en_lista[of filtrosVacios "''fechaCreacion''", OF _ dentro,
        of hostBasico almacenOrden] qc la
      ids[of "sortPor ''fechaCreacion'' False (juegos almacenOrden)"]
    by (simp add: ligar_def ordenes_ejemplo v set_sortPor)
  from fuera datos srv0 srv ctl ctl0 show ?thesis by (simp add: ordenes_ejemplo)
qed

subsection \<open>Creating a game\<close>

lemma crear_duplicado:
  assumes "regexI h (patronNombre (d_nombre d)) = Some prueba"
    and "\<exists>j \<in> set (juegos s). prueba (nombre j)"
  shows "crearJuego h r d s = (Inl Duplicado, s)"
    and "crear h r d s
           = (Inl (ErrorPlano ''Error creando juego: Ya existe un juego con ese nombre''), s)"
proof -
  from assms(2) have "find (\<lambda>j. prueba (nombre j)) (juegos s) \<noteq> None"
    by (auto simp: find_None_iff)
  then obtain j where j: "find (\<lambda>j. prueba (nombre j)) (juegos s) = Some j" by blast
  with assms(1) show "crearJuego h r d s = (Inl Duplicado, s)"
    by (simp add: crearJuego_def findOnePorNombre_def)
  from j assms(1) show "crear h r d s
           = (Inl (ErrorPlano ''Error creando juego: Ya existe un juego con ese nombre''), s)"
    by (simp add: crear_def findOnePorNombre_def relanzar_def mensaje_def)
qed

lemma find_append_nuevo:
  "i \<notin> set (map j_id xs) \<Longrightarrow> j_id j = i \<Longrightarrow> find (\<lambda>x. j_id x = i) (xs @ [j]) = Some j"
  by (induction xs) auto

lemma validarEsquemaJuego_id:
  "validarEsquemaJuego m i t d = Inr j \<Longrightarrow> j_id j = i"
  by (auto simp: validarEsquemaJuego_def Let_def split: option.splits if_splits)

lemma crear_unico:
  assumes re: "regexI h (patronNombre (d_nombre d)) = Some prueba"
    and unico: "\<forall>j \<in> set (juegos s). \<not> prueba (nombre j)"
    and valido: "validarEsquemaJuego (anioActual h + 2) (nuevoId r) (ahora r) d = Inr j"
    and fresco: "nuevoId r \<notin> set (map j_id (juegos s))"
  shows "crear h r d s = (Inr (transformarAFrontend_srv h (documento j)), s\<lparr>juegos := juegos s @ [j]\<rparr>)"
    and "crearJuego h r d s = crear h r d s"
    and "casteaObjectId h (JObjectId (nuevoId r)) = Some (nuevoId r) \<Longrightarrow>
         obtenerPorId h (JObjectId (nuevoId r)) (snd (crear h r d s))
             = Inr (transformarAFrontend_srv h (documento j))"
proof -
  from unico have n: "find (\<lambda>j. prueba (nombre j)) (juegos s) = None"
    by (simp add: find_None_iff)
  from valido have i: "j_id j = nuevoId r" by (rule validarEsquemaJuego_id)
  from re n valido fresco i
  show c: "crear h r d s = (Inr (transformarAFrontend_srv h (documento j)), s\<lparr>juegos := juegos s @ [j]\<rparr>)"
    by (simp add: crear_def findOnePorNombre_def insertarJuego_def relanzar_def)
  from re n valido fresco i
  have "crearJuego h r d s = (Inr (transformarAFrontend_srv h (documento j)), s\<lparr>juegos := juegos s @ [j]\<rparr>)"
    by (simp add: crearJuego_def findOnePorNombre_def insertarJuego_def)
  with c show "crearJuego h r d s = crear h r d s" by simp
  assume cast: "casteaObjectId h (JObjectId (nuevoId r)) = Some (nuevoId r)"
  from find_append_nuevo[OF fresco i] cast
  have "obtenerPorId h (JObjectId (nuevoId r)) (s\<lparr>juegos := juegos s @ [j]\<rparr>)
          = Inr (transformarAFrontend_srv h (documento j))"
    by (simp add: obtenerPorId_def findByIdJuego_def relanzar_def)
  with c show "obtenerPorId h (JObjectId (nuevoId r)) (snd (crear h r d s))
             = Inr (transformarAFrontend_srv h (documento j))" by simp
qed

lemma regex_halo:
  "map_option (\<lambda>t. t ''Halo (2001)'') (regexBasico (patronNombre (Some ''Halo (2001)''))) = Some False"
  by code_simp

text \<open>
  C2. With the game \<^verbatim>\<open>Halo (2001)\<close> in the store, creating a game with the same title
  succeeds and leaves two games with that title: the pattern built from the title reads the
  parentheses as a group, so the stored title does not match it.
\<close>

theorem C2_titulo_con_parentesis:
  "map nombre (juegos almacenHalo) = [''Halo (2001)'']
   \<and> d_nombre datosHalo = Some ''Halo (2001)''
   \<and> map_sum id (\<lambda>v. leer v ''nombre'') (fst (crear hostBasico relojEjemplo datosHalo almacenHalo))
       = Inr (JStr ''Halo (2001)'')
   \<and> map nombre (juegos (snd (crear hostBasico relojEjemplo datosHalo almacenHalo)))
       = [''Halo (2001)'', ''Halo (2001)'']
   \<and> crearJuego hostBasico relojEjemplo datosHalo almacenHalo
       = crear hostBasico relojEjemplo datosHalo almacenHalo"
proof -
  let ?j = "(juegoDe ''507f1f77bcf86cd799439012'' ''Halo (2001)'' 0 False 0)\<lparr>anio := 2001, plataforma := ''Xbox''\<rparr>"
  from regex_halo obtain prueba where
    re: "regexI hostBasico (patronNombre (d_nombre datosHalo)) = Some prueba"
    and no: "\<not> prueba ''Halo (2001)''"
    by (auto simp: hostBasico_def datosHalo_def)
  have nombres: "map nombre (juegos almacenHalo) = [''Halo (2001)'']"
    by (simp add: almacenHalo_def juegoDe_def)
  then have unico: "\<forall>j \<in> set (juegos almacenHalo). \<not> prueba (nombre j)"
    using no by (simp add: almacenHalo_def juegoDe_def)
  have valido: "validarEsquemaJuego (anioActual hostBasico + 2) (nuevoId relojEjemplo) (ahora relojEjemplo) datosHalo
                  = Inr ?j"
    by (simp add: validarEsquemaJuego_def datosHalo_def juegoDe_def trim_ejemplos trim_vacio
        longitud_ejemplos generosValidos_def imagenValida_def Let_def hostBasico_def relojEjemplo_def)
  have fresco: "nuevoId relojEjemplo \<notin> set (map j_id (juegos almacenHalo))"
    by (simp add: relojEjemplo_def almacenHalo_def juegoDe_def)
  note c = crear_unico[OF re unico valido fresco]
  have "fechasConvertibles hostBasico ?j"
    using textoISO_definido[of 0]
    by (auto simp: fechasConvertibles_def hostBasico_def juegoDe_def)
  then obtain ob where ob: "transformarAFrontend_srv hostBasico (documento ?j) = JObj ob"
    "map_of ob ''nombre'' = Some (JStr (nombre ?j))"
    using transformarAFrontend_srv_documento[of hostBasico ?j]
    by (auto simp: fechasConvertibles_def)
  from c(1) ob have r1: "map_sum id (\<lambda>v. leer v ''nombre'') (fst (crear hostBasico relojEjemplo datosHalo almacenHalo))
       = Inr (JStr ''Halo (2001)'')"
    by (simp add: juegoDe_def)
  from c(1) nombres have r2: "map nombre (juegos (snd (crear hostBasico relojEjemplo datosHalo almacenHalo)))
       = [''Halo (2001)'', ''Halo (2001)'']"
    by (simp add: juegoDe_def)
  from nombres r1 r2 c(2) show ?thesis by (simp add: datosHalo_def)
qed

section \<open>Properties of the creation of reviews\<close>








text \<open>
  What the service answers when the lookup finds no game: the plain error of its frame, which
  carries the message and no status.
\<close>

lemma crearReseniaServicio_mensaje:
  "findByIdJuego h s (s_juegoId d) = Inr None \<Longrightarrow>
   crearReseniaServicio h r d s
     = (Inl (ErrorPlano (''Error creando '' @ c_resenia @ '': Juego no encontrado'')), s)"
  by (simp add: crearReseniaServicio_def relanzar_def mensaje_def)


lemma hex_ejemplos:
  "validarObjectIdTexto ''507f1f77bcf86cd799439011''"
  "validarObjectIdTexto ''507f1f77bcf86cd799439099''"
  "\<not> validarObjectIdTexto ''abc''"
  by (simp_all add: validarObjectIdTexto_def esHex_def Let_def)

lemma juegoDe_campos: "j_id (juegoDe i n hrs c t) = i" "nombre (juegoDe i n hrs c t) = n"
  by (simp_all add: juegoDe_def)

lemma almacenHalo_campos:
  "juegos almacenHalo = [juegoDe ''507f1f77bcf86cd799439011'' ''Halo (2001)'' 12 True 0]"
  "resenias almacenHalo = []"
  by (simp_all add: almacenHalo_def)

lemma buscar_ejemplos:
  "findByIdJuego hostBasico almacenHalo (JStr ''507f1f77bcf86cd799439099'') = Inr None"
  "findByIdJuego hostBasico almacenHalo (JStr ''abc'') = Inl CastError"
  "findByIdJuego hostBasico almacenHalo (JStr ''507f1f77bcf86cd799439011'')
     = Inr (Some (juegoDe ''507f1f77bcf86cd799439011'' ''Halo (2001)'' 12 True 0))"
  by (simp_all add: findByIdJuego_def hostBasico_def hex_ejemplos minuscula_def Let_def
      almacenHalo_campos juegoDe_campos)



lemma crearResenia_ejemplo:
  "map_sum id (\<lambda>v. leer v ''juegoId'')
       (fst (crearResenia hostBasico relojEjemplo (cuerpoDe ''507f1f77bcf86cd799439011'') almacenHalo))
     = Inr (JObj [(''_id'', JObjectId ''507f1f77bcf86cd799439011'')])
   \<and> map r_juegoId (resenias (snd (crearResenia hostBasico relojEjemplo
                                     (cuerpoDe ''507f1f77bcf86cd799439011'') almacenHalo)))
     = [''507f1f77bcf86cd799439011'']"
  by (simp add: crearResenia_def validarObjectId_def cuerpoDe_def hex_ejemplos buscar_ejemplos
      fueraDeRango_def validarEsquemaReseniaLegado_def castNumero_def insertarResenia_def
      reseniaPobladaLegado_def relojEjemplo_def juegoDe_campos almacenHalo_campos)

lemma crearReseniaServicio_ejemplo:
  "map r_juegoId (resenias (snd (crearReseniaServicio hostBasico relojEjemplo
                                     (datosReseniaDe ''507f1f77bcf86cd799439011'') almacenHalo)))
     = [''507f1f77bcf86cd799439011'']"
  by (simp add: crearReseniaServicio_def datosReseniaDe_def buscar_ejemplos reseniaDelAutor_def
      castTexto_def ligar_def validarEsquemaResenia_def castNumero_def insertarResenia_def
      relojEjemplo_def juegoDe_campos almacenHalo_campos trim_ejemplos longitud_ejemplos jsOr_def
      Anonimo_def relanzar_def)


end
